theory Spec2Isabelle
  imports Complex_Main "HOL-Library.Sublist"
begin

section \<open>fluxcli: the resource synchronization layer (package k8s)\<close>

text \<open>
  A shallow embedding of the Go sources of fluxcli: the fetchers and mutation operations
  of package \<open>k8s\<close> and the table view of package \<open>ui\<close>. Go strings are byte
  sequences, so \<open>string\<close> (a list of 8-bit characters) models them and \<open>length\<close> is
  Go's \<open>len\<close>. A nil slice and an empty slice behave alike under \<open>len\<close>, \<open>range\<close> and
  \<open>append\<close>, so both are the empty list.
\<close>

subsection \<open>Strings and errors\<close>

text \<open>\<open>strings.Contains(s, substr)\<close>: \<open>substr\<close> occurs in \<open>s\<close> as a contiguous block.\<close>

definition strings_Contains :: "string \<Rightarrow> string \<Rightarrow> bool" where
  "strings_Contains s substr = sublist substr s"

text \<open>
  Go errors. \<open>StatusError nf msg\<close> is an error handed back by the Kubernetes client:
  \<open>nf\<close> is what \<open>apierrors.IsNotFound\<close> answers for it and \<open>msg\<close> its \<open>Error()\<close> text.
  \<open>Errorf msg w\<close> is the value of a \<open>fmt.Errorf\<close> call: \<open>msg\<close> is the formatted text and
  \<open>w\<close> the error wrapped with \<open>%w\<close>, if the format has one.
\<close>

datatype kerror = StatusError bool string | Errorf string "kerror option"

fun Error :: "kerror \<Rightarrow> string" where
  "Error (StatusError nf msg) = msg"
| "Error (Errorf msg w) = msg"

text \<open>\<open>apierrors.IsNotFound\<close> looks through the \<open>%w\<close> chain (\<open>errors.As\<close>).\<close>

fun IsNotFound :: "kerror \<Rightarrow> bool" where
  "IsNotFound (StatusError nf msg) = nf"
| "IsNotFound (Errorf msg None) = False"
| "IsNotFound (Errorf msg (Some e)) = IsNotFound e"

text \<open>
  \<open>client.IgnoreNotFound(err)\<close> for a non-nil \<open>err\<close>: nil (\<open>None\<close>) exactly when the error
  is a not-found error.
\<close>

definition IgnoreNotFound :: "kerror \<Rightarrow> kerror option" where
  "IgnoreNotFound err = (if IsNotFound err then None else Some err)"

text \<open>
  The classification every fetcher computes for a failed list call (the local
  \<open>isCRDMissing\<close>; the same expression stands at each of the five list calls).
\<close>

definition isCRDMissing :: "kerror \<Rightarrow> bool" where
  "isCRDMissing err =
     (let errStr = Error err in
        IgnoreNotFound err = None \<or>
        (errStr \<noteq> '''' \<and>
          (strings_Contains errStr ''no matches for kind'' \<or>
           strings_Contains errStr ''could not find the requested resource'' \<or>
           strings_Contains errStr ''the server could not find the requested resource'')))"

subsection \<open>Time\<close>

text \<open>
  A \<open>time.Time\<close> is an instant (nanoseconds since the epoch) with a location; a
  \<open>time.Duration\<close> is a count of nanoseconds. The clock reading and the layout
  formatter of package \<open>time\<close> are parameters of the model.
\<close>

datatype Location = Local | UTC

record GoTime =
  unixNano :: int
  location :: Location

type_synonym Duration = int

record TimePkg =
  time_Now :: GoTime
  time_Format :: "GoTime \<Rightarrow> string \<Rightarrow> string"

text \<open>
  \<open>t.Sub(u)\<close>: the difference, or the largest (smallest) \<open>Duration\<close> when the difference
  does not fit into 64 bits.
\<close>

definition minDuration :: Duration where
  "minDuration = - (2 ^ 63)"

definition maxDuration :: Duration where
  "maxDuration = 2 ^ 63 - 1"

definition Time_Sub :: "GoTime \<Rightarrow> GoTime \<Rightarrow> Duration" where
  "Time_Sub t u =
     (let d = unixNano t - unixNano u in
        if d > maxDuration then maxDuration
        else if d < minDuration then minDuration
        else d)"

definition time_Since :: "TimePkg \<Rightarrow> GoTime \<Rightarrow> Duration" where
  "time_Since tp t = Time_Sub (time_Now tp) t"

definition Time_UTC :: "GoTime \<Rightarrow> GoTime" where
  "Time_UTC t = t\<lparr>location := UTC\<rparr>"

definition RFC3339 :: string where
  "RFC3339 = ''2006-01-02T15:04:05Z07:00''"

subsection \<open>The entity model\<close>

type_synonym ResourceType = string

definition ResourceTypeGitRepository :: ResourceType where
  "ResourceTypeGitRepository = ''GitRepository''"

definition ResourceTypeHelmRepository :: ResourceType where
  "ResourceTypeHelmRepository = ''HelmRepository''"

definition ResourceTypeKustomization :: ResourceType where
  "ResourceTypeKustomization = ''Kustomization''"

definition ResourceTypeHelmRelease :: ResourceType where
  "ResourceTypeHelmRelease = ''HelmRelease''"

record Condition =
  c_Type :: string
  c_Status :: string
  c_Reason :: string
  c_Message :: string
  c_LastTransitionTime :: GoTime

record Resource =
  Type :: ResourceType
  Name :: string
  Namespace :: string
  Ready :: bool
  Status :: string
  Message :: string
  Age :: Duration
  LastUpdate :: GoTime
  Conditions :: "Condition list"
  Suspended :: bool
  Source :: string
  Path :: string
  Revision :: string
  URL :: string
  Chart :: string
  Version :: string

subsection \<open>The cluster's objects\<close>

text \<open>
  \<open>metav1.Condition\<close> and the four custom resources, with the fields the code reads or
  writes. \<open>om_Annotations\<close> is \<open>None\<close> for a nil map.
\<close>

record metav1_Condition =
  mc_Type :: string
  mc_Status :: string
  mc_Reason :: string
  mc_Message :: string
  mc_LastTransitionTime :: GoTime

definition ConditionTrue :: string where
  "ConditionTrue = ''True''"

record ObjectMeta =
  om_Name :: string
  om_Namespace :: string
  om_CreationTimestamp :: GoTime
  om_ResourceVersion :: string
  om_Annotations :: "(string \<rightharpoonup> string) option"

record Artifact =
  art_Revision :: string

record GitRepository =
  gr_Meta :: ObjectMeta
  gr_Suspend :: bool
  gr_URL :: string
  gr_Conditions :: "metav1_Condition list"
  gr_Artifact :: "Artifact option"

record HelmRepository =
  hp_Meta :: ObjectMeta
  hp_Suspend :: bool
  hp_URL :: string
  hp_Conditions :: "metav1_Condition list"

record Kustomization =
  ks_Meta :: ObjectMeta
  ks_Suspend :: bool
  ks_Path :: string
  ks_SourceRef_Kind :: string
  ks_SourceRef_Name :: string
  ks_Conditions :: "metav1_Condition list"
  ks_LastAppliedRevision :: string

text \<open>
  \<open>hr.Spec.Chart\<close> of a HelmRelease is a pointer to the chart template; it is nil
  (\<open>None\<close>) on a release that names no chart.
\<close>

record HelmChartTemplate =
  ct_Chart :: string
  ct_Version :: string
  ct_SourceRef_Kind :: string
  ct_SourceRef_Name :: string

record HelmRelease =
  hl_Meta :: ObjectMeta
  hl_Suspend :: bool
  hl_Chart :: "HelmChartTemplate option"
  hl_Conditions :: "metav1_Condition list"
  hl_LastAppliedRevision :: string

datatype Object =
  GitRepositoryObj GitRepository
| HelmRepositoryObj HelmRepository
| KustomizationObj Kustomization
| HelmReleaseObj HelmRelease

subsection \<open>The client handle and the calls it issues\<close>

datatype Context = Background

datatype ListOption = InNamespace string

record NamespacedName =
  nn_Name :: string
  nn_Namespace :: string

text \<open>
  How a call ends, on the controller-runtime client or of an operation of this package:
  it returns, it returns an error, or it panics with a value whose text is given.
\<close>

datatype 'a CallResult = Returned 'a | Failed kerror | Panicked string

text \<open>
  The Go type of the list (or object) handed to a call fixes the API group and version
  it goes to: \<open>sourcev1\<close>, \<open>sourcev1beta2\<close>, \<open>kustomizev1\<close> and \<open>helmv2\<close> (imported from
  \<open>helm-controller/api/v2beta1\<close>).
\<close>

datatype ListTarget =
  GitRepositoryList_v1
| HelmRepositoryList_v1beta2
| HelmRepositoryList_v1
| KustomizationList_v1
| HelmReleaseList_v2beta1

datatype ObjType =
  GitRepository_v1
| HelmRepository_v1beta2
| Kustomization_v1
| HelmRelease_v2beta1

text \<open>
  The controller-runtime client together with the cluster behind it, as the answers it
  gives. A context argument of \<open>None\<close> is a nil \<open>context.Context\<close>. The two versions of
  HelmRepository have the same fields as far as the code reads them, so one record
  serves both.
\<close>

record K8sClient =
  List_GitRepository :: "Context option \<Rightarrow> ListOption list \<Rightarrow> GitRepository list CallResult"
  List_HelmRepository_v1beta2 :: "Context option \<Rightarrow> ListOption list \<Rightarrow> HelmRepository list CallResult"
  List_HelmRepository_v1 :: "Context option \<Rightarrow> ListOption list \<Rightarrow> HelmRepository list CallResult"
  List_Kustomization :: "Context option \<Rightarrow> ListOption list \<Rightarrow> Kustomization list CallResult"
  List_HelmRelease :: "Context option \<Rightarrow> ListOption list \<Rightarrow> HelmRelease list CallResult"
  Get_GitRepository :: "Context option \<Rightarrow> NamespacedName \<Rightarrow> GitRepository CallResult"
  Get_HelmRepository :: "Context option \<Rightarrow> NamespacedName \<Rightarrow> HelmRepository CallResult"
  Get_Kustomization :: "Context option \<Rightarrow> NamespacedName \<Rightarrow> Kustomization CallResult"
  Get_HelmRelease :: "Context option \<Rightarrow> NamespacedName \<Rightarrow> HelmRelease CallResult"
  Update_Object :: "Context option \<Rightarrow> Object \<Rightarrow> unit CallResult"

text \<open>
  Modelled from the spec: the \<open>Client\<close> struct, whose declaration is not among the
  sources. The spec calls it the connected client handle; the methods use it as a
  struct that embeds the controller-runtime client (\<open>c.Client\<close>, \<open>c.List\<close>, \<open>c.Get\<close>,
  \<open>c.Update\<close>). A receiver \<open>None\<close> is a nil \<open>*Client\<close>, an \<open>embeddedClient\<close> of \<open>None\<close> a
  nil interface value in the embedded field.
\<close>

record Client =
  embeddedClient :: "K8sClient option"

text \<open>The calls issued to the cluster, in order.\<close>

datatype Call =
  ListCall ListTarget "Context option" "ListOption list"
| GetCall ObjType "Context option" NamespacedName
| UpdateCall "Context option" Object

text \<open>The text of the Go runtime's panic on a nil dereference.\<close>

definition nilDereference :: string where
  "nilDereference = ''runtime error: invalid memory address or nil pointer dereference''"

text \<open>The error \<open>safeList\<close>'s deferred function builds from a recovered panic value.\<close>

definition recoveredPanic :: "string \<Rightarrow> kerror" where
  "recoveredPanic r = Errorf (''panic in kubernetes client list operation: '' @ r) None"

text \<open>
  \<open>safeList\<close>: \<open>c.List\<close> under a deferred \<open>recover\<close>. With a nil receiver or a nil
  embedded client the promoted call \<open>c.List\<close> panics inside \<open>safeList\<close> before any call
  leaves, and the panic is recovered like one of the client's own.
\<close>

definition safeList ::
  "Client option \<Rightarrow> ListTarget \<Rightarrow>
   (K8sClient \<Rightarrow> Context option \<Rightarrow> ListOption list \<Rightarrow> 'a CallResult) \<Rightarrow>
   Context option \<Rightarrow> ListOption list \<Rightarrow> (kerror + 'a) \<times> Call list" where
  "safeList c target list ctx opts =
     (case c of
        None \<Rightarrow> (Inl (recoveredPanic nilDereference), [])
      | Some cl \<Rightarrow>
          (case embeddedClient cl of
             None \<Rightarrow> (Inl (recoveredPanic nilDereference), [])
           | Some k \<Rightarrow>
               (case list k ctx opts of
                  Returned items \<Rightarrow> (Inr items, [ListCall target ctx opts])
                | Failed err \<Rightarrow> (Inl err, [ListCall target ctx opts])
                | Panicked r \<Rightarrow> (Inl (recoveredPanic r), [ListCall target ctx opts]))))"

text \<open>The list options every fetcher builds from its \<open>namespace\<close> argument.\<close>

definition listOptions :: "string \<Rightarrow> ListOption list" where
  "listOptions namespace =
     (if namespace \<noteq> '''' then
        (if length namespace > 0 \<and> namespace \<noteq> ''<nil>'' then [InNamespace namespace] else [])
      else [])"

subsection \<open>Normalising conditions\<close>

definition copyCondition :: "metav1_Condition \<Rightarrow> Condition" where
  "copyCondition cond =
     \<lparr>c_Type = mc_Type cond, c_Status = mc_Status cond, c_Reason = mc_Reason cond,
      c_Message = mc_Message cond, c_LastTransitionTime = mc_LastTransitionTime cond\<rparr>"

text \<open>
  The condition loop of ListGitRepositories, ListKustomizations and ListHelmReleases:
  every condition is appended, and each one of type "Ready" overwrites
  \<open>Ready\<close>, \<open>Status\<close> and \<open>Message\<close>.
\<close>

fun parseStatus :: "Resource \<Rightarrow> metav1_Condition list \<Rightarrow> Resource" where
  "parseStatus resource [] = resource"
| "parseStatus resource (cond # conds) =
     (let r1 = resource\<lparr>Conditions := Conditions resource @ [copyCondition cond]\<rparr>;
          r2 = (if mc_Type cond = ''Ready''
                then r1\<lparr>Ready := (mc_Status cond = ConditionTrue),
                        Status := mc_Reason cond,
                        Message := mc_Message cond\<rparr>
                else r1)
      in parseStatus r2 conds)"

text \<open>
  The two steps of ListHelmRepositories (the same on the v1beta2 and the v1 path): the
  loop only appends; then the last condition of the list, whatever its type, gives
  \<open>Status\<close>, \<open>Message\<close> and \<open>Ready\<close>.
\<close>

fun appendConditions :: "Resource \<Rightarrow> metav1_Condition list \<Rightarrow> Resource" where
  "appendConditions resource [] = resource"
| "appendConditions resource (cond # conds) =
     appendConditions (resource\<lparr>Conditions := Conditions resource @ [copyCondition cond]\<rparr>) conds"

definition parseStatusLast :: "Resource \<Rightarrow> metav1_Condition list \<Rightarrow> Resource" where
  "parseStatusLast resource conds =
     (let r1 = appendConditions resource conds in
        if length conds > 0 then
          (let lastCond = conds ! (length conds - 1) in
             r1\<lparr>Status := mc_Status lastCond,
                Message := mc_Message lastCond,
                Ready := (mc_Status lastCond = ConditionTrue)\<rparr>)
        else r1)"

subsection \<open>One Resource per fetched object (the body of each fetcher's loop)\<close>

definition GitRepository_Resource :: "TimePkg \<Rightarrow> GitRepository \<Rightarrow> Resource" where
  "GitRepository_Resource tp repo =
     (let resource =
            \<lparr>Type = ResourceTypeGitRepository,
             Name = om_Name (gr_Meta repo),
             Namespace = om_Namespace (gr_Meta repo),
             Ready = False, Status = '''', Message = '''',
             Age = time_Since tp (om_CreationTimestamp (gr_Meta repo)),
             LastUpdate = time_Now tp,
             Conditions = [],
             Suspended = gr_Suspend repo,
             Source = '''', Path = '''', Revision = '''',
             URL = gr_URL repo,
             Chart = '''', Version = ''''\<rparr>;
          resource = parseStatus resource (gr_Conditions repo)
      in case gr_Artifact repo of
           None \<Rightarrow> resource
         | Some a \<Rightarrow> resource\<lparr>Revision := art_Revision a\<rparr>)"

definition HelmRepository_Resource :: "TimePkg \<Rightarrow> HelmRepository \<Rightarrow> Resource" where
  "HelmRepository_Resource tp repo =
     (let resource =
            \<lparr>Type = ResourceTypeHelmRepository,
             Name = om_Name (hp_Meta repo),
             Namespace = om_Namespace (hp_Meta repo),
             Ready = False, Status = '''', Message = '''',
             Age = time_Since tp (om_CreationTimestamp (hp_Meta repo)),
             LastUpdate = time_Now tp,
             Conditions = [],
             Suspended = hp_Suspend repo,
             Source = '''', Path = '''', Revision = '''',
             URL = hp_URL repo,
             Chart = '''', Version = ''''\<rparr>
      in parseStatusLast resource (hp_Conditions repo))"

definition Kustomization_Resource :: "TimePkg \<Rightarrow> Kustomization \<Rightarrow> Resource" where
  "Kustomization_Resource tp ks =
     (let resource =
            \<lparr>Type = ResourceTypeKustomization,
             Name = om_Name (ks_Meta ks),
             Namespace = om_Namespace (ks_Meta ks),
             Ready = False, Status = '''', Message = '''',
             Age = time_Since tp (om_CreationTimestamp (ks_Meta ks)),
             LastUpdate = time_Now tp,
             Conditions = [],
             Suspended = ks_Suspend ks,
             Source = '''',
             Path = ks_Path ks,
             Revision = '''', URL = '''', Chart = '''', Version = ''''\<rparr>;
          resource = (if ks_SourceRef_Kind ks = ''GitRepository''
                      then resource\<lparr>Source := ks_SourceRef_Name ks\<rparr> else resource);
          resource = parseStatus resource (ks_Conditions ks)
      in if ks_LastAppliedRevision ks \<noteq> ''''
         then resource\<lparr>Revision := ks_LastAppliedRevision ks\<rparr> else resource)"

text \<open>
  The body of ListHelmReleases' loop reads \<open>hr.Spec.Chart.Spec.Chart\<close> first of all: on
  a release whose \<open>Spec.Chart\<close> is nil that read panics (\<open>None\<close>), and it does so after
  \<open>safeList\<close> has returned.
\<close>

definition HelmRelease_Resource :: "TimePkg \<Rightarrow> HelmRelease \<Rightarrow> Resource option" where
  "HelmRelease_Resource tp hr =
     (case hl_Chart hr of
        None \<Rightarrow> None
      | Some chart \<Rightarrow>
          (let resource =
                 \<lparr>Type = ResourceTypeHelmRelease,
                  Name = om_Name (hl_Meta hr),
                  Namespace = om_Namespace (hl_Meta hr),
                  Ready = False, Status = '''', Message = '''',
                  Age = time_Since tp (om_CreationTimestamp (hl_Meta hr)),
                  LastUpdate = time_Now tp,
                  Conditions = [],
                  Suspended = hl_Suspend hr,
                  Source = '''', Path = '''', Revision = '''', URL = '''',
                  Chart = ct_Chart chart,
                  Version = ct_Version chart\<rparr>;
               resource = (if ct_SourceRef_Kind chart = ''HelmRepository''
                           then resource\<lparr>Source := ct_SourceRef_Name chart\<rparr> else resource);
               resource = parseStatus resource (hl_Conditions hr)
           in Some (if hl_LastAppliedRevision hr \<noteq> ''''
                    then resource\<lparr>Revision := hl_LastAppliedRevision hr\<rparr> else resource)))"

text \<open>
  The loop of ListHelmReleases over the listed items: it appends one Resource per
  release and ends in the nil-dereference panic at the first release without a chart.
\<close>

fun helmReleaseResources ::
  "TimePkg \<Rightarrow> Resource list \<Rightarrow> HelmRelease list \<Rightarrow> Resource list CallResult" where
  "helmReleaseResources tp resources [] = Returned resources"
| "helmReleaseResources tp resources (hr # items) =
     (case HelmRelease_Resource tp hr of
        None \<Rightarrow> Panicked nilDereference
      | Some resource \<Rightarrow> helmReleaseResources tp (resources @ [resource]) items)"

subsection \<open>The fetchers\<close>

text \<open>
  Each fetcher returns its result (\<open>Inl\<close> the error) and the calls it issued. Every
  panic that can arise in ListGitRepositories, ListHelmRepositories and
  ListKustomizations arises inside \<open>safeList\<close> and is recovered there, so these three
  have no panic outcome. The code reads the clock twice for each object, for \<open>Age\<close> and
  for \<open>LastUpdate\<close>; the model takes one reading for the whole fetch, and only these
  two fields depend on it.
\<close>

definition ListGitRepositories ::
  "TimePkg \<Rightarrow> Client option \<Rightarrow> Context option \<Rightarrow> string \<Rightarrow> (kerror + Resource list) \<times> Call list" where
  "ListGitRepositories tp c ctx namespace =
     (let opts = listOptions namespace in
        case safeList c GitRepositoryList_v1 List_GitRepository ctx opts of
          (Inl err, calls) \<Rightarrow>
            (if isCRDMissing err then (Inr [], calls)
             else (Inl (Errorf (''failed to list GitRepositories: '' @ Error err) (Some err)), calls))
        | (Inr items, calls) \<Rightarrow> (Inr (map (GitRepository_Resource tp) items), calls))"

definition ListHelmRepositories ::
  "TimePkg \<Rightarrow> Client option \<Rightarrow> Context option \<Rightarrow> string \<Rightarrow> (kerror + Resource list) \<times> Call list" where
  "ListHelmRepositories tp c ctx namespace =
     (case c of
        None \<Rightarrow> (Inl (Errorf ''kubernetes client is nil'' None), [])
      | Some cl \<Rightarrow>
          if embeddedClient cl = None then (Inl (Errorf ''embedded kubernetes client is nil'' None), [])
          else if ctx = None then (Inl (Errorf ''context is nil'' None), [])
          else
            (let opts = listOptions namespace in
               case safeList c HelmRepositoryList_v1beta2 List_HelmRepository_v1beta2 ctx opts of
                 (Inl listErr, calls) \<Rightarrow>
                   (if isCRDMissing listErr then
                      (case safeList c HelmRepositoryList_v1 List_HelmRepository_v1 ctx opts of
                         (Inl errV1, callsV1) \<Rightarrow>
                           (if isCRDMissing errV1 then (Inr [], calls @ callsV1)
                            else (Inl (Errorf
                                   (''failed to list HelmRepositories (tried v1beta2 and v1): v1beta2=''
                                      @ Error listErr @ '', v1='' @ Error errV1)
                                   (Some listErr)),
                                  calls @ callsV1))
                       | (Inr itemsV1, callsV1) \<Rightarrow>
                           (Inr (map (HelmRepository_Resource tp) itemsV1), calls @ callsV1))
                    else (Inl (Errorf (''failed to list HelmRepositories (v1beta2): '' @ Error listErr)
                                (Some listErr)),
                          calls))
               | (Inr items, calls) \<Rightarrow> (Inr (map (HelmRepository_Resource tp) items), calls)))"

definition ListKustomizations ::
  "TimePkg \<Rightarrow> Client option \<Rightarrow> Context option \<Rightarrow> string \<Rightarrow> (kerror + Resource list) \<times> Call list" where
  "ListKustomizations tp c ctx namespace =
     (let opts = listOptions namespace in
        case safeList c KustomizationList_v1 List_Kustomization ctx opts of
          (Inl err, calls) \<Rightarrow>
            (if isCRDMissing err then (Inr [], calls)
             else (Inl (Errorf (''failed to list Kustomizations: '' @ Error err) (Some err)), calls))
        | (Inr items, calls) \<Rightarrow> (Inr (map (Kustomization_Resource tp) items), calls))"

text \<open>
  ListHelmReleases returns a result, returns an error, or panics: its loop runs outside
  \<open>safeList\<close>.
\<close>

definition ListHelmReleases ::
  "TimePkg \<Rightarrow> Client option \<Rightarrow> Context option \<Rightarrow> string \<Rightarrow> Resource list CallResult \<times> Call list" where
  "ListHelmReleases tp c ctx namespace =
     (let opts = listOptions namespace in
        case safeList c HelmReleaseList_v2beta1 List_HelmRelease ctx opts of
          (Inl err, calls) \<Rightarrow>
            (if isCRDMissing err then (Returned [], calls)
             else (Failed (Errorf (''failed to list HelmReleases: '' @ Error err) (Some err)), calls))
        | (Inr items, calls) \<Rightarrow> (helmReleaseResources tp [] items, calls))"

text \<open>
  The error a list call ends with, as \<open>safeList\<close> hands it to the fetcher: the client's
  own error, or the one built from a recovered panic; \<open>None\<close> when the call returned.
\<close>

fun listError :: "'a CallResult \<Rightarrow> kerror option" where
  "listError (Returned items) = None"
| "listError (Failed err) = Some err"
| "listError (Panicked r) = Some (recoveredPanic r)"

subsection \<open>Mutation operations\<close>

text \<open>
  \<open>c.Get\<close> and \<open>c.Update\<close> are the promoted methods of the embedded client and run
  under no \<open>recover\<close>: on a nil receiver or a nil embedded client they panic before any
  call leaves, and a panic of the client's own propagates. \<open>c.Get\<close> fills the object it
  is handed, so what it returns has the Go type that was asked for.
\<close>

definition c_Get ::
  "Client option \<Rightarrow> Context option \<Rightarrow> NamespacedName \<Rightarrow> ObjType \<Rightarrow> Object CallResult \<times> Call list" where
  "c_Get c ctx key ty =
     (case c of
        None \<Rightarrow> (Panicked nilDereference, [])
      | Some cl \<Rightarrow>
          (case embeddedClient cl of
             None \<Rightarrow> (Panicked nilDereference, [])
           | Some k \<Rightarrow>
               ((case ty of
                   GitRepository_v1 \<Rightarrow> map_CallResult GitRepositoryObj (Get_GitRepository k ctx key)
                 | HelmRepository_v1beta2 \<Rightarrow> map_CallResult HelmRepositoryObj (Get_HelmRepository k ctx key)
                 | Kustomization_v1 \<Rightarrow> map_CallResult KustomizationObj (Get_Kustomization k ctx key)
                 | HelmRelease_v2beta1 \<Rightarrow> map_CallResult HelmReleaseObj (Get_HelmRelease k ctx key)),
                [GetCall ty ctx key])))"

definition c_Update ::
  "Client option \<Rightarrow> Context option \<Rightarrow> Object \<Rightarrow> unit CallResult \<times> Call list" where
  "c_Update c ctx obj =
     (case c of
        None \<Rightarrow> (Panicked nilDereference, [])
      | Some cl \<Rightarrow>
          (case embeddedClient cl of
             None \<Rightarrow> (Panicked nilDereference, [])
           | Some k \<Rightarrow> (Update_Object k ctx obj, [UpdateCall ctx obj])))"

text \<open>
  The first \<open>switch\<close> of updateSuspendStatus and of ReconcileResource: the empty object
  of the Go type that belongs to the resource type; \<open>None\<close> is the \<open>default\<close> branch.
\<close>

definition newObject :: "ResourceType \<Rightarrow> ObjType option" where
  "newObject resourceType =
     (if resourceType = ResourceTypeGitRepository then Some GitRepository_v1
      else if resourceType = ResourceTypeHelmRepository then Some HelmRepository_v1beta2
      else if resourceType = ResourceTypeKustomization then Some Kustomization_v1
      else if resourceType = ResourceTypeHelmRelease then Some HelmRelease_v2beta1
      else None)"

text \<open>
  The second \<open>switch\<close> of updateSuspendStatus: a type assertion on the fetched object
  (\<open>Inl\<close> its panic when the object has another type) and the assignment to
  \<open>Spec.Suspend\<close>. The \<open>switch\<close> has no \<open>default\<close>.
\<close>

definition typeAssertionFailed :: string where
  "typeAssertionFailed = ''interface conversion: client.Object has another dynamic type''"

definition setSuspend :: "ResourceType \<Rightarrow> bool \<Rightarrow> Object \<Rightarrow> string + Object" where
  "setSuspend resourceType suspend obj =
     (if resourceType = ResourceTypeGitRepository then
        (case obj of
           GitRepositoryObj repo \<Rightarrow> Inr (GitRepositoryObj (repo\<lparr>gr_Suspend := suspend\<rparr>))
         | _ \<Rightarrow> Inl typeAssertionFailed)
      else if resourceType = ResourceTypeHelmRepository then
        (case obj of
           HelmRepositoryObj repo \<Rightarrow> Inr (HelmRepositoryObj (repo\<lparr>hp_Suspend := suspend\<rparr>))
         | _ \<Rightarrow> Inl typeAssertionFailed)
      else if resourceType = ResourceTypeKustomization then
        (case obj of
           KustomizationObj ks \<Rightarrow> Inr (KustomizationObj (ks\<lparr>ks_Suspend := suspend\<rparr>))
         | _ \<Rightarrow> Inl typeAssertionFailed)
      else if resourceType = ResourceTypeHelmRelease then
        (case obj of
           HelmReleaseObj hr \<Rightarrow> Inr (HelmReleaseObj (hr\<lparr>hl_Suspend := suspend\<rparr>))
         | _ \<Rightarrow> Inl typeAssertionFailed)
      else Inr obj)"

definition updateSuspendStatus ::
  "Client option \<Rightarrow> Context option \<Rightarrow> ResourceType \<Rightarrow> string \<Rightarrow> string \<Rightarrow> bool \<Rightarrow>
   unit CallResult \<times> Call list" where
  "updateSuspendStatus c ctx resourceType name namespace suspend =
     (case newObject resourceType of
        None \<Rightarrow> (Failed (Errorf (''unsupported resource type: '' @ resourceType) None), [])
      | Some ty \<Rightarrow>
          (let key = \<lparr>nn_Name = name, nn_Namespace = namespace\<rparr> in
             case c_Get c ctx key ty of
               (Failed err, calls) \<Rightarrow>
                 (Failed (Errorf (''failed to get '' @ resourceType @ ''/'' @ name @ '': '' @ Error err)
                           (Some err)),
                  calls)
             | (Panicked r, calls) \<Rightarrow> (Panicked r, calls)
             | (Returned obj, calls) \<Rightarrow>
                 (case setSuspend resourceType suspend obj of
                    Inl r \<Rightarrow> (Panicked r, calls)
                  | Inr obj' \<Rightarrow>
                      (case c_Update c ctx obj' of
                         (Failed err, callsU) \<Rightarrow>
                           (Failed (Errorf (''failed to update '' @ resourceType @ ''/'' @ name @ '': ''
                                             @ Error err)
                                     (Some err)),
                            calls @ callsU)
                       | (Panicked r, callsU) \<Rightarrow> (Panicked r, calls @ callsU)
                       | (Returned u, callsU) \<Rightarrow> (Returned (), calls @ callsU)))))"

definition SuspendResource ::
  "Client option \<Rightarrow> Context option \<Rightarrow> ResourceType \<Rightarrow> string \<Rightarrow> string \<Rightarrow> unit CallResult \<times> Call list" where
  "SuspendResource c ctx resourceType name namespace =
     updateSuspendStatus c ctx resourceType name namespace True"

definition ResumeResource ::
  "Client option \<Rightarrow> Context option \<Rightarrow> ResourceType \<Rightarrow> string \<Rightarrow> string \<Rightarrow> unit CallResult \<times> Call list" where
  "ResumeResource c ctx resourceType name namespace =
     updateSuspendStatus c ctx resourceType name namespace False"

text \<open>\<open>obj.GetAnnotations()\<close> and \<open>obj.SetAnnotations(a)\<close> of \<open>client.Object\<close>.\<close>

fun GetAnnotations :: "Object \<Rightarrow> (string \<rightharpoonup> string) option" where
  "GetAnnotations (GitRepositoryObj repo) = om_Annotations (gr_Meta repo)"
| "GetAnnotations (HelmRepositoryObj repo) = om_Annotations (hp_Meta repo)"
| "GetAnnotations (KustomizationObj ks) = om_Annotations (ks_Meta ks)"
| "GetAnnotations (HelmReleaseObj hr) = om_Annotations (hl_Meta hr)"

fun SetAnnotations :: "Object \<Rightarrow> (string \<rightharpoonup> string) option \<Rightarrow> Object" where
  "SetAnnotations (GitRepositoryObj repo) a =
     GitRepositoryObj (repo\<lparr>gr_Meta := (gr_Meta repo)\<lparr>om_Annotations := a\<rparr>\<rparr>)"
| "SetAnnotations (HelmRepositoryObj repo) a =
     HelmRepositoryObj (repo\<lparr>hp_Meta := (hp_Meta repo)\<lparr>om_Annotations := a\<rparr>\<rparr>)"
| "SetAnnotations (KustomizationObj ks) a =
     KustomizationObj (ks\<lparr>ks_Meta := (ks_Meta ks)\<lparr>om_Annotations := a\<rparr>\<rparr>)"
| "SetAnnotations (HelmReleaseObj hr) a =
     HelmReleaseObj (hr\<lparr>hl_Meta := (hl_Meta hr)\<lparr>om_Annotations := a\<rparr>\<rparr>)"

definition reconcileAnnotation :: string where
  "reconcileAnnotation = ''reconcile.fluxcd.io/requestedAt''"

text \<open>
  The annotation step of ReconcileResource: a nil map is replaced by a fresh one, the
  key is set to \<open>time.Now().UTC().Format(time.RFC3339)\<close>, and the map is stored back.
\<close>

definition addReconcileAnnotation :: "TimePkg \<Rightarrow> Object \<Rightarrow> Object" where
  "addReconcileAnnotation tp obj =
     (let annotations = (case GetAnnotations obj of None \<Rightarrow> Map.empty | Some m \<Rightarrow> m);
          annotations = annotations(reconcileAnnotation \<mapsto>
                          time_Format tp (Time_UTC (time_Now tp)) RFC3339)
      in SetAnnotations obj (Some annotations))"

definition ReconcileResource ::
  "TimePkg \<Rightarrow> Client option \<Rightarrow> Context option \<Rightarrow> ResourceType \<Rightarrow> string \<Rightarrow> string \<Rightarrow>
   unit CallResult \<times> Call list" where
  "ReconcileResource tp c ctx resourceType name namespace =
     (case newObject resourceType of
        None \<Rightarrow> (Failed (Errorf (''unsupported resource type: '' @ resourceType) None), [])
      | Some ty \<Rightarrow>
          (let key = \<lparr>nn_Name = name, nn_Namespace = namespace\<rparr> in
             case c_Get c ctx key ty of
               (Failed err, calls) \<Rightarrow>
                 (Failed (Errorf (''failed to get '' @ resourceType @ ''/'' @ name @ '': '' @ Error err)
                           (Some err)),
                  calls)
             | (Panicked r, calls) \<Rightarrow> (Panicked r, calls)
             | (Returned obj, calls) \<Rightarrow>
                 (case c_Update c ctx (addReconcileAnnotation tp obj) of
                    (Failed err, callsU) \<Rightarrow>
                      (Failed (Errorf (''failed to update '' @ resourceType @ ''/'' @ name @ '': ''
                                        @ Error err)
                                (Some err)),
                       calls @ callsU)
                  | (Panicked r, callsU) \<Rightarrow> (Panicked r, calls @ callsU)
                  | (Returned u, callsU) \<Rightarrow> (Returned (), calls @ callsU))))"

section \<open>fluxcli: the resource view (package ui)\<close>

subsection \<open>Go arithmetic: integer division, float64, formatting\<close>

text \<open>
  Go's \<open>/\<close> and \<open>%\<close> on integers int_of_float64 towards zero. The widths and durations of this
  code are Go \<open>int\<close> and \<open>int64\<close> values; the model computes with unbounded integers.
\<close>

definition quo :: "int \<Rightarrow> int \<Rightarrow> int" where
  "quo a b = sgn a * sgn b * (\<bar>a\<bar> div \<bar>b\<bar>)"

definition rem :: "int \<Rightarrow> int \<Rightarrow> int" where
  "rem a b = sgn a * (\<bar>a\<bar> mod \<bar>b\<bar>)"

text \<open>
  A \<open>float64\<close> value is the real number it stands for, and \<open>float64 x\<close> is the \<open>float64\<close>
  nearest to \<open>x\<close>, ties to the even significand (IEEE 754 binary64, 53 significant
  bits): what a conversion, a sum or a quotient of \<open>float64\<close> values yields from its
  exact result. Exponent overflow and subnormal numbers are left out: every value the
  code below computes from an \<open>int64\<close> duration is zero or has a magnitude between
  \<open>10\<^sup>-\<^sup>1\<^sup>3\<close> and \<open>10\<^sup>1\<^sup>9\<close>.
\<close>

fun bitlen :: "nat \<Rightarrow> nat" where
  "bitlen n = (if n = 0 then 0 else Suc (bitlen (n div 2)))"

declare bitlen.simps [simp del]

definition pow2 :: "int \<Rightarrow> real" where
  "pow2 e = (if 0 \<le> e then 2 ^ nat e else 1 / 2 ^ nat (- e))"

text \<open>The binary exponent of a positive number: \<open>pow2 (ilog2 a) \<le> a < pow2 (ilog2 a + 1)\<close>.\<close>

definition ilog2 :: "real \<Rightarrow> int" where
  "ilog2 a = (if 1 \<le> a then int (bitlen (nat \<lfloor>a\<rfloor>)) - 1
              else - int (bitlen (nat (\<lceil>1 / a\<rceil> - 1))))"

definition roundEven :: "real \<Rightarrow> int" where
  "roundEven m =
     (let f = \<lfloor>m\<rfloor>; r = m - of_int f in
        if r < 1 / 2 then f else if 1 / 2 < r then f + 1 else if even f then f else f + 1)"

definition float64 :: "real \<Rightarrow> real" where
  "float64 x =
     (if x = 0 then 0
      else (let a = \<bar>x\<bar>; u = pow2 (ilog2 a - 52) in sgn x * of_int (roundEven (a / u)) * u))"

text \<open>\<open>int(f)\<close> for a \<open>float64\<close> \<open>f\<close> within the range of \<open>int\<close>: the fraction is dropped.\<close>

definition int_of_float64 :: "real \<Rightarrow> int" where
  "int_of_float64 f = (if 0 \<le> f then \<lfloor>f\<rfloor> else \<lceil>f\<rceil>)"

text \<open>\<open>fmt.Sprintf("%d", n)\<close>.\<close>

fun decimal :: "nat \<Rightarrow> string" where
  "decimal n = (if n < 10 then [''0123456789'' ! n] else decimal (n div 10) @ [''0123456789'' ! (n mod 10)])"

declare decimal.simps [simp del]

definition Sprintf_d :: "int \<Rightarrow> string" where
  "Sprintf_d n = (if n < 0 then ''-'' @ decimal (nat (- n)) else decimal (nat n))"

subsection \<open>Durations\<close>

definition Nanosecond :: Duration where "Nanosecond = 1"

definition Second :: Duration where "Second = 1000000000 * Nanosecond"

definition Minute :: Duration where "Minute = 60 * Second"

definition Hour :: Duration where "Hour = 60 * Minute"

text \<open>
  \<open>Duration.Seconds\<close>, \<open>Minutes\<close> and \<open>Hours\<close> of package \<open>time\<close>: the whole units and the
  remaining nanoseconds are converted to \<open>float64\<close> apart, and the \<open>float64\<close> sum is
  returned.
\<close>

definition Duration_Seconds :: "Duration \<Rightarrow> real" where
  "Duration_Seconds d =
     (let sec = quo d Second; nsec = rem d Second in
        float64 (float64 (of_int sec) + float64 (float64 (of_int nsec) / 1000000000)))"

definition Duration_Minutes :: "Duration \<Rightarrow> real" where
  "Duration_Minutes d =
     (let min = quo d Minute; nsec = rem d Minute in
        float64 (float64 (of_int min) + float64 (float64 (of_int nsec) / (60 * 1000000000))))"

definition Duration_Hours :: "Duration \<Rightarrow> real" where
  "Duration_Hours d =
     (let hour = quo d Hour; nsec = rem d Hour in
        float64 (float64 (of_int hour) + float64 (float64 (of_int nsec) / (60 * 60 * 1000000000))))"

definition formatAge :: "Duration \<Rightarrow> string" where
  "formatAge d =
     (if d < Minute then Sprintf_d (int_of_float64 (Duration_Seconds d)) @ ''s''
      else if d < Hour then Sprintf_d (int_of_float64 (Duration_Minutes d)) @ ''m''
      else if d < 24 * Hour then Sprintf_d (int_of_float64 (Duration_Hours d)) @ ''h''
      else Sprintf_d (int_of_float64 (float64 (Duration_Hours d / 24))) @ ''d'')"

subsection \<open>The view\<close>

text \<open>
  Modelled from the spec: the UI section of \<open>config.Config\<close> (package
  \<open>internal/config\<close> is not among the sources), with the three settings the view
  reads: the widths of the Name and Status columns and the flag that asks for the
  namespace in front of the name.
\<close>

record UIConfig =
  ColumnsName :: int
  ColumnsStatus :: int
  ShowNamespace :: bool

text \<open>
  \<open>table.Column\<close> and \<open>table.Model\<close> of the bubbles library, as what the view hands
  to the widget's setters: the columns, the rows, the height given to \<open>SetHeight\<close> (from
  which the widget takes off its header for the viewport), and the cursor that
  \<open>Cursor()\<close> reports. How the widget renders its rows is not part of the model.
\<close>

record Column =
  Title :: string
  Width :: int

record TableModel =
  t_cols :: "Column list"
  t_rows :: "string list list"
  t_cursor :: int
  t_height :: int

definition table_SetColumns :: "TableModel \<Rightarrow> Column list \<Rightarrow> TableModel" where
  "table_SetColumns t cs = t\<lparr>t_cols := cs\<rparr>"

definition table_SetRows :: "TableModel \<Rightarrow> string list list \<Rightarrow> TableModel" where
  "table_SetRows t rs = t\<lparr>t_rows := rs\<rparr>"

definition table_SetHeight :: "TableModel \<Rightarrow> int \<Rightarrow> TableModel" where
  "table_SetHeight t h = t\<lparr>t_height := h\<rparr>"

definition table_Cursor :: "TableModel \<Rightarrow> int" where
  "table_Cursor t = t_cursor t"

record ResourceView =
  v_config :: UIConfig
  v_table :: TableModel
  v_resources :: "Resource list"
  v_resourceType :: ResourceType
  v_width :: int
  v_height :: int

text \<open>The ellipsis the view appends: U+2026, three bytes in UTF-8.\<close>

definition ellipsis :: string where
  "ellipsis = [CHR 0xE2, CHR 0x80, CHR 0xA6]"

definition createTableRow :: "ResourceView \<Rightarrow> Resource \<Rightarrow> string list" where
  "createTableRow v resource =
     (let name = (if ShowNamespace (v_config v) \<and> Namespace resource \<noteq> ''''
                  then Namespace resource @ ''/'' @ Name resource
                  else Name resource);
          ready = (if Ready resource then ''True'' else ''False'');
          status = Status resource;
          status = (if status = '''' then ''Unknown'' else status);
          status = (if Suspended resource then ''Suspended'' else status);
          status = (if length status > 12 then take 9 status @ ellipsis else status);
          age = formatAge (Age resource);
          message = Message resource;
          message = (if length message > 35 then take 32 message @ ellipsis else message)
      in if v_resourceType v = ResourceTypeGitRepository \<or> v_resourceType v = ResourceTypeHelmRepository
         then [name, ready, status, age, message, URL resource]
         else if v_resourceType v = ResourceTypeKustomization
         then (let source = Source resource;
                   source = (if Path resource \<noteq> '''' then source @ ''/'' @ Path resource else source)
               in [name, ready, status, age, message, source])
         else if v_resourceType v = ResourceTypeHelmRelease
         then (let chart = Chart resource;
                   chart = (if Version resource \<noteq> '''' then chart @ '':'' @ Version resource else chart)
               in [name, ready, status, age, message, chart])
         else [name, ready, status, age, message])"

definition updateTable :: "ResourceView \<Rightarrow> ResourceView" where
  "updateTable v = v\<lparr>v_table := table_SetRows (v_table v) (map (createTableRow v) (v_resources v))\<rparr>"

text \<open>The columns updateTableColumns starts from.\<close>

definition baseColumns :: "ResourceView \<Rightarrow> Column list" where
  "baseColumns v =
     [\<lparr>Title = ''Name'', Width = ColumnsName (v_config v)\<rparr>,
      \<lparr>Title = ''Ready'', Width = 8\<rparr>,
      \<lparr>Title = ''Status'', Width = ColumnsStatus (v_config v)\<rparr>,
      \<lparr>Title = ''Age'', Width = 10\<rparr>,
      \<lparr>Title = ''Message'', Width = 35\<rparr>]
     @ (if v_resourceType v = ResourceTypeGitRepository then [\<lparr>Title = ''URL'', Width = 40\<rparr>]
        else if v_resourceType v = ResourceTypeHelmRepository then [\<lparr>Title = ''URL'', Width = 40\<rparr>]
        else if v_resourceType v = ResourceTypeKustomization then [\<lparr>Title = ''Source/Path'', Width = 30\<rparr>]
        else if v_resourceType v = ResourceTypeHelmRelease then [\<lparr>Title = ''Chart'', Width = 25\<rparr>]
        else [])"

definition isFlexColumn :: "Column \<Rightarrow> bool" where
  "isFlexColumn col = (Title col = ''Message'' \<or> Title col = ''URL'' \<or> Title col = ''Source/Path'')"

text \<open>The first loop: \<open>(totalFixedWidth, flexColumns)\<close> after the columns still to visit.\<close>

fun countColumns :: "int \<times> int \<Rightarrow> Column list \<Rightarrow> int \<times> int" where
  "countColumns (totalFixedWidth, flexColumns) [] = (totalFixedWidth, flexColumns)"
| "countColumns (totalFixedWidth, flexColumns) (col # cols) =
     (if isFlexColumn col then countColumns (totalFixedWidth, flexColumns + 1) cols
      else countColumns (totalFixedWidth + Width col, flexColumns) cols)"

text \<open>
  The second loop, \<open>for _, col := range baseColumns\<close>: \<open>col\<close> is the loop's own copy of
  the element (a \<open>table.Column\<close> is a struct value), so \<open>col.Width = flexWidth\<close> assigns
  to the copy; the slice, the first argument here, is what the loop leaves behind.
\<close>

fun assignFlexWidth :: "Column list \<Rightarrow> int \<Rightarrow> Column list \<Rightarrow> Column list" where
  "assignFlexWidth slice flexWidth [] = slice"
| "assignFlexWidth slice flexWidth (col # cols) =
     (let col = (if isFlexColumn col then col\<lparr>Width := flexWidth\<rparr> else col)
      in assignFlexWidth slice flexWidth cols)"

definition updateTableColumns :: "ResourceView \<Rightarrow> ResourceView" where
  "updateTableColumns v =
     (let base = baseColumns v;
          base =
            (if v_width v > 0 then
               (case countColumns (0, 0) base of
                  (totalFixedWidth, flexColumns) \<Rightarrow>
                    if flexColumns > 0 then
                      (let availableWidth = v_width v - totalFixedWidth - 10;
                           flexWidth = quo availableWidth flexColumns
                       in if flexWidth > 20 then assignFlexWidth base flexWidth base else base)
                    else base)
             else base)
      in v\<lparr>v_table := table_SetColumns (v_table v) base\<rparr>)"

definition SetSize :: "ResourceView \<Rightarrow> int \<Rightarrow> int \<Rightarrow> ResourceView" where
  "SetSize v width height =
     updateTableColumns
       (v\<lparr>v_width := width, v_height := height,
          v_table := table_SetHeight (v_table v) (height - 2)\<rparr>)"

definition SetResources :: "ResourceView \<Rightarrow> Resource list \<Rightarrow> ResourceView" where
  "SetResources v rs = updateTable (updateTableColumns (v\<lparr>v_resources := rs\<rparr>))"

definition SetResourceType :: "ResourceView \<Rightarrow> ResourceType \<Rightarrow> ResourceView" where
  "SetResourceType v resourceType = updateTable (updateTableColumns (v\<lparr>v_resourceType := resourceType\<rparr>))"

text \<open>
  GetSelectedResource: the pointer to the selected element, \<open>None\<close> for nil. The index
  expression is evaluated only inside the bounds check.
\<close>

definition GetSelectedResource :: "ResourceView \<Rightarrow> Resource option" where
  "GetSelectedResource v =
     (let cursor = table_Cursor (v_table v) in
        if cursor \<ge> 0 \<and> cursor < int (length (v_resources v))
        then Some (v_resources v ! nat cursor)
        else None)"

section \<open>A sample cluster\<close>

text \<open>Concrete objects, errors and clients on which the operations are evaluated.\<close>

definition epoch :: GoTime where
  "epoch = \<lparr>unixNano = 0, location = UTC\<rparr>"

definition sampleTime :: TimePkg where
  "sampleTime =
     \<lparr>time_Now = \<lparr>unixNano = 90000000000, location = Local\<rparr>,
      time_Format = (\<lambda>t layout. if layout = RFC3339 \<and> location t = UTC
                                   then ''1970-01-01T00:01:30Z'' else ''?'')\<rparr>"

definition sampleMeta :: "string \<Rightarrow> ObjectMeta" where
  "sampleMeta name =
     \<lparr>om_Name = name, om_Namespace = ''flux-system'', om_CreationTimestamp = epoch,
      om_ResourceVersion = ''7'', om_Annotations = None\<rparr>"

definition sampleCondition :: "string \<Rightarrow> string \<Rightarrow> string \<Rightarrow> metav1_Condition" where
  "sampleCondition ty st reason =
     \<lparr>mc_Type = ty, mc_Status = st, mc_Reason = reason, mc_Message = ty @ '' is '' @ st,
      mc_LastTransitionTime = epoch\<rparr>"

definition sampleGitRepository :: "metav1_Condition list \<Rightarrow> GitRepository" where
  "sampleGitRepository conds =
     \<lparr>gr_Meta = sampleMeta ''podinfo'', gr_Suspend = False,
      gr_URL = ''https://example.org/podinfo'', gr_Conditions = conds, gr_Artifact = None\<rparr>"

definition sampleHelmRepository :: "metav1_Condition list \<Rightarrow> HelmRepository" where
  "sampleHelmRepository conds =
     \<lparr>hp_Meta = sampleMeta ''charts'', hp_Suspend = False,
      hp_URL = ''https://example.org/charts'', hp_Conditions = conds\<rparr>"

definition sampleKustomization :: "metav1_Condition list \<Rightarrow> Kustomization" where
  "sampleKustomization conds =
     \<lparr>ks_Meta = sampleMeta ''apps'', ks_Suspend = False, ks_Path = ''./deploy'',
      ks_SourceRef_Kind = ''GitRepository'', ks_SourceRef_Name = ''podinfo'',
      ks_Conditions = conds, ks_LastAppliedRevision = ''main@sha1:abc''\<rparr>"

definition sampleHelmRelease :: "metav1_Condition list \<Rightarrow> HelmRelease" where
  "sampleHelmRelease conds =
     \<lparr>hl_Meta = sampleMeta ''web'', hl_Suspend = False,
      hl_Chart = Some \<lparr>ct_Chart = ''web'', ct_Version = ''1.2.3'',
                       ct_SourceRef_Kind = ''HelmRepository'', ct_SourceRef_Name = ''charts''\<rparr>,
      hl_Conditions = conds, hl_LastAppliedRevision = ''1.2.3''\<rparr>"

definition notFoundError :: kerror where
  "notFoundError = StatusError True ''the server could not find the requested resource''"

definition noMatchError :: kerror where
  "noMatchError = StatusError False ''no matches for kind HelmRepository in version source.toolkit.fluxcd.io/v1''"

definition refusedError :: kerror where
  "refusedError = StatusError False ''dial tcp 10.0.0.1:6443: connect: connection refused''"

definition conflictError :: kerror where
  "conflictError = StatusError False ''the object has been modified; please apply your changes to the latest version and try again''"

text \<open>
  A cluster on which every list succeeds, except that HelmRepository is not served at
  v1beta2; found objects are ready and every update is accepted.
\<close>

definition sampleCluster :: K8sClient where
  "sampleCluster =
     \<lparr>List_GitRepository = (\<lambda>ctx opts. Returned [sampleGitRepository [sampleCondition ''Ready'' ''True'' ''Succeeded'']]),
      List_HelmRepository_v1beta2 = (\<lambda>ctx opts. Failed notFoundError),
      List_HelmRepository_v1 = (\<lambda>ctx opts. Returned [sampleHelmRepository [sampleCondition ''Ready'' ''True'' ''Succeeded'']]),
      List_Kustomization = (\<lambda>ctx opts. Returned [sampleKustomization [sampleCondition ''Ready'' ''True'' ''ReconciliationSucceeded'']]),
      List_HelmRelease = (\<lambda>ctx opts. Returned [sampleHelmRelease [sampleCondition ''Ready'' ''True'' ''ReconciliationSucceeded'']]),
      Get_GitRepository = (\<lambda>ctx key. Returned (sampleGitRepository [sampleCondition ''Ready'' ''True'' ''Succeeded''])),
      Get_HelmRepository = (\<lambda>ctx key. Returned (sampleHelmRepository [sampleCondition ''Ready'' ''True'' ''Succeeded''])),
      Get_Kustomization = (\<lambda>ctx key. Returned (sampleKustomization [sampleCondition ''Ready'' ''True'' ''ReconciliationSucceeded''])),
      Get_HelmRelease = (\<lambda>ctx key. Returned (sampleHelmRelease [sampleCondition ''Ready'' ''True'' ''ReconciliationSucceeded''])),
      Update_Object = (\<lambda>ctx obj. Returned ())\<rparr>"

definition sampleClient :: Client where
  "sampleClient = \<lparr>embeddedClient = Some sampleCluster\<rparr>"

text \<open>A view of three resources with the cursor on the second row.\<close>

definition sampleResource :: "string \<Rightarrow> string \<Rightarrow> bool \<Rightarrow> Resource" where
  "sampleResource name status suspended =
     \<lparr>Type = ResourceTypeGitRepository, Name = name, Namespace = ''flux-system'',
      Ready = False, Status = status, Message = '''', Age = 45 * Second,
      LastUpdate = epoch, Conditions = [], Suspended = suspended,
      Source = '''', Path = '''', Revision = '''', URL = ''https://example.org/'' @ name,
      Chart = '''', Version = ''''\<rparr>"

definition sampleView :: ResourceView where
  "sampleView =
     \<lparr>v_config = \<lparr>ColumnsName = 30, ColumnsStatus = 15, ShowNamespace = True\<rparr>,
      v_table = \<lparr>t_cols = [], t_rows = [], t_cursor = 1, t_height = 10\<rparr>,
      v_resources = [sampleResource ''a'' ''ReconcileFailed'' False,
                     sampleResource ''b'' ''HealthFailed'' False,
                     sampleResource ''c'' '''' True],
      v_resourceType = ResourceTypeGitRepository,
      v_width = 0, v_height = 0\<rparr>"

text \<open>The sample cluster with other answers to the two HelmRepository list calls.\<close>

definition clusterWith ::
  "HelmRepository list CallResult \<Rightarrow> HelmRepository list CallResult \<Rightarrow> K8sClient" where
  "clusterWith primary fallback =
     sampleCluster\<lparr>List_HelmRepository_v1beta2 := (\<lambda>ctx opts. primary),
                   List_HelmRepository_v1 := (\<lambda>ctx opts. fallback)\<rparr>"

definition clientOf :: "K8sClient \<Rightarrow> Client" where
  "clientOf k = \<lparr>embeddedClient = Some k\<rparr>"

section \<open>Properties of the view\<close>

text \<open>
  C10. GetSelectedResource returns the resource at the table's cursor when the cursor
  lies in \<open>[0, len(resources))\<close> and nil otherwise; in particular it returns nil on an
  empty resource sequence and when the cursor is past the last row, and a resource it
  returns is an element of the sequence, read inside its bounds.
\<close>

theorem GetSelectedResource_in_bounds:
  "(0 \<le> table_Cursor (v_table v) \<and> table_Cursor (v_table v) < int (length (v_resources v)) \<longrightarrow>
      GetSelectedResource v = Some (v_resources v ! nat (table_Cursor (v_table v))) \<and>
      nat (table_Cursor (v_table v)) < length (v_resources v)) \<and>
   (\<not> (0 \<le> table_Cursor (v_table v) \<and> table_Cursor (v_table v) < int (length (v_resources v))) \<longrightarrow>
      GetSelectedResource v = None) \<and>
   (v_resources v = [] \<longrightarrow> GetSelectedResource v = None) \<and>
   (int (length (v_resources v)) \<le> table_Cursor (v_table v) \<longrightarrow> GetSelectedResource v = None) \<and>
   (\<forall>r. GetSelectedResource v = Some r \<longrightarrow> r \<in> set (v_resources v))"
  by (auto simp: GetSelectedResource_def Let_def)

theorem GetSelectedResource_in_bounds_witness:
  "0 \<le> table_Cursor (v_table sampleView) \<and>
   table_Cursor (v_table sampleView) < int (length (v_resources sampleView)) \<and>
   GetSelectedResource sampleView = Some (sampleResource ''b'' ''HealthFailed'' False) \<and>
   \<not> (0 \<le> table_Cursor (v_table (sampleView\<lparr>v_resources := []\<rparr>)) \<and>
      table_Cursor (v_table (sampleView\<lparr>v_resources := []\<rparr>))
        < int (length (v_resources (sampleView\<lparr>v_resources := []\<rparr>)))) \<and>
   GetSelectedResource (sampleView\<lparr>v_resources := []\<rparr>) = None"
  using GetSelectedResource_in_bounds [of sampleView]
        GetSelectedResource_in_bounds [of "sampleView\<lparr>v_resources := []\<rparr>"]
  by (simp add: sampleView_def table_Cursor_def)

subsection \<open>The status cell\<close>

text \<open>
  C7. The status cell of a row (its third cell) is "Suspended" for a suspended
  resource, otherwise the resource's status, or "Unknown" when that is empty; the
  label is left as it is when its length is at most 12 and is cut to its first 9
  characters followed by the ellipsis when it is longer. So a status of length 15 is
  rendered as its first 9 characters and the ellipsis, and one of length 12
  unchanged. (Lengths count bytes, as Go's \<open>len\<close> does.)
\<close>

theorem status_cell:
  "createTableRow v r ! 2 =
     (let label = (if Suspended r then ''Suspended''
                   else if Status r = '''' then ''Unknown'' else Status r)
      in if length label \<le> 12 then label else take 9 label @ ellipsis) \<and>
   (\<not> Suspended r \<and> length (Status r) = 15 \<longrightarrow>
      createTableRow v r ! 2 = take 9 (Status r) @ ellipsis) \<and>
   (\<not> Suspended r \<and> length (Status r) = 12 \<longrightarrow> createTableRow v r ! 2 = Status r) \<and>
   (Suspended r \<longrightarrow> createTableRow v r ! 2 = ''Suspended'') \<and>
   (\<not> Suspended r \<and> Status r = '''' \<longrightarrow> createTableRow v r ! 2 = ''Unknown'')"
  by (auto simp: createTableRow_def Let_def)

theorem status_cell_witness:
  "\<not> Suspended (sampleResource ''a'' ''ReconcileFailed'' False) \<and>
   length (Status (sampleResource ''a'' ''ReconcileFailed'' False)) = 15 \<and>
   createTableRow sampleView (sampleResource ''a'' ''ReconcileFailed'' False) ! 2
     = ''Reconcile'' @ ellipsis \<and>
   \<not> Suspended (sampleResource ''b'' ''HealthFailed'' False) \<and>
   length (Status (sampleResource ''b'' ''HealthFailed'' False)) = 12 \<and>
   createTableRow sampleView (sampleResource ''b'' ''HealthFailed'' False) ! 2 = ''HealthFailed'' \<and>
   Suspended (sampleResource ''c'' '''' True) \<and>
   createTableRow sampleView (sampleResource ''c'' '''' True) ! 2 = ''Suspended'' \<and>
   Status (sampleResource ''d'' '''' False) = '''' \<and>
   createTableRow sampleView (sampleResource ''d'' '''' False) ! 2 = ''Unknown''"
  using status_cell [of sampleView "sampleResource ''a'' ''ReconcileFailed'' False"]
        status_cell [of sampleView "sampleResource ''b'' ''HealthFailed'' False"]
        status_cell [of sampleView "sampleResource ''c'' '''' True"]
        status_cell [of sampleView "sampleResource ''d'' '''' False"]
  by (simp add: sampleResource_def)

subsection \<open>Column widths\<close>

lemma assignFlexWidth_slice: "assignFlexWidth slice flexWidth cols = slice"
  by (induction cols) (simp_all add: Let_def)

lemma updateTableColumns_cols: "t_cols (v_table (updateTableColumns v)) = baseColumns v"
  by (simp add: updateTableColumns_def Let_def table_SetColumns_def assignFlexWidth_slice
      split: prod.split)

text \<open>
  C6 fails on the code. At width 200 over GitRepository rows, with a Name column of 30
  and a Status column of 15, the fixed columns take 63 and the two flexible columns
  (Message, URL) should each get \<open>(200 - 63 - 10) / 2 = 63\<close>; the columns handed to
  the table keep their widths 35 and 40. The loop that assigns the computed width
  writes to its own copy of each column, so the table always receives the base
  columns, whatever the width.
\<close>

theorem flexible_width_is_not_applied:
  "countColumns (0, 0) (baseColumns (sampleView\<lparr>v_width := 200, v_height := 40\<rparr>)) = (63, 2) \<and>
   quo (200 - 63 - 10) 2 = 63 \<and>
   map Title (t_cols (v_table (SetSize sampleView 200 40)))
     = [''Name'', ''Ready'', ''Status'', ''Age'', ''Message'', ''URL''] \<and>
   map Width (t_cols (v_table (SetSize sampleView 200 40))) = [30, 8, 15, 10, 35, 40] \<and>
   (\<forall>v. t_cols (v_table (updateTableColumns v)) = baseColumns v)"
  by (simp add: updateTableColumns_cols SetSize_def baseColumns_def sampleView_def
      ResourceTypeGitRepository_def isFlexColumn_def quo_def)

subsection \<open>Ages\<close>

text \<open>Evaluating the arithmetic on numerals.\<close>

lemma bitlen_0: "bitlen 0 = 0"
  by (simp add: bitlen.simps)

lemma bitlen_pos: "n \<noteq> 0 \<Longrightarrow> bitlen n = Suc (bitlen (n div 2))"
  by (subst bitlen.simps) simp

lemma decimal_digit: "n < 10 \<Longrightarrow> decimal n = [''0123456789'' ! n]"
  by (subst decimal.simps) simp

lemma decimal_more: "\<not> n < 10 \<Longrightarrow> decimal n = decimal (n div 10) @ [''0123456789'' ! (n mod 10)]"
  by (subst decimal.simps) simp

lemmas duration_units = Nanosecond_def Second_def Minute_def Hour_def

lemmas float64_eval = float64_def ilog2_def pow2_def roundEven_def Let_def bitlen_0 bitlen_pos

lemmas Sprintf_d_eval = Sprintf_d_def decimal_digit decimal_more

lemma Sprintf_d_45: "Sprintf_d 45 = ''45''"
  by (simp add: Sprintf_d_eval)

lemma Sprintf_d_1: "Sprintf_d 1 = ''1''"
  by (simp add: Sprintf_d_eval)

lemma Sprintf_d_172: "Sprintf_d 172 = ''172''"
  by (simp add: Sprintf_d_eval)

lemma Seconds_45s: "Duration_Seconds 45000000000 = 45"
  by (simp add: Duration_Seconds_def duration_units quo_def rem_def float64_eval)

lemma Minutes_90s: "Duration_Minutes 90000000000 = 3 / 2"
  by (simp add: Duration_Minutes_def duration_units quo_def rem_def float64_eval)

lemma Hours_3700s: "Duration_Hours 3700000000000 = 1157174904254919 / 1125899906842624"
  by (simp add: Duration_Hours_def duration_units quo_def rem_def float64_eval)

lemma Hours_90000s: "Duration_Hours 90000000000000 = 25"
  by (simp add: Duration_Hours_def duration_units quo_def rem_def float64_eval)

lemma float64_25_24: "float64 (25 / 24) = 4691249611844267 / 4503599627370496"
  by (simp add: float64_eval)

lemma Hours_172d_less_1ns: "Duration_Hours 14860799999999999 = 4128"
  by (simp add: Duration_Hours_def duration_units quo_def rem_def float64_eval)

lemma float64_172: "float64 172 = 172"
  by (simp add: float64_eval)

text \<open>
  Rounding to \<open>float64\<close>: the binary exponent, monotonicity, and the numbers that
  are \<open>float64\<close> values already.
\<close>

lemma pow2_powi: "pow2 e = 2 powi e"
  by (simp add: pow2_def power_int_def power_one_over)

lemma bitlen_bounds: "0 < n \<Longrightarrow> 2 ^ (bitlen n - 1) \<le> n \<and> n < 2 ^ bitlen n"
proof (induction n rule: bitlen.induct)
  case (1 n)
  show ?case
  proof (cases "n div 2 = 0")
    case True
    with "1.prems" have "n = 1" by (simp add: div_eq_0_iff)
    then show ?thesis by (simp add: bitlen_pos bitlen_0)
  next
    case False
    then have pos: "0 < n div 2" by simp
    from "1.prems" have n0: "n \<noteq> 0" by simp
    from "1.IH" [OF n0 pos]
    have lo: "2 ^ (bitlen (n div 2) - 1) \<le> n div 2" and hi: "n div 2 < 2 ^ bitlen (n div 2)"
      by simp_all
    have L: "bitlen (n div 2) \<noteq> 0"
      using pos by (simp add: bitlen_pos)
    then obtain l where l: "bitlen (n div 2) = Suc l"
      by (cases "bitlen (n div 2)") simp_all
    have bn: "bitlen n = Suc (Suc l)"
      using n0 l by (simp add: bitlen_pos)
    from lo l have "2 ^ l \<le> n div 2" by simp
    then have a: "2 ^ Suc l \<le> n" by simp
    from hi l have "n div 2 < 2 ^ Suc l" by simp
    then have b: "n < 2 ^ Suc (Suc l)" by simp
    from a b bn show ?thesis by simp
  qed
qed

lemma powi2_less_cancel: "(2::real) powi m < 2 powi n \<Longrightarrow> m < n"
  using power_int_increasing [of n m "2::real"] by (cases "m < n") auto

lemma ilog2_bounds:
  assumes "0 < a"
  shows "2 powi (ilog2 a) \<le> a \<and> a < 2 powi (ilog2 a + 1)"
proof (cases "1 \<le> a")
  case True
  define n where "n = nat \<lfloor>a\<rfloor>"
  from True have n: "0 < n" by (simp add: n_def)
  have fl: "real n \<le> a" "a < real n + 1"
    using True by (simp_all add: n_def)
  from bitlen_bounds [OF n] have lo: "2 ^ (bitlen n - 1) \<le> n" and hi: "n < 2 ^ bitlen n"
    by simp_all
  have b1: "1 \<le> bitlen n" using n by (simp add: bitlen_pos)
  have e: "ilog2 a = int (bitlen n - 1)"
    using True b1 by (simp add: ilog2_def n_def [symmetric])
  have rlo: "(2::real) ^ (bitlen n - 1) \<le> real n"
    using of_nat_mono [OF lo, where 'a = real] by simp
  have "2 powi (ilog2 a) = (2::real) ^ (bitlen n - 1)" by (simp only: e power_int_of_nat)
  also note rlo
  also note fl(1)
  finally have lower: "2 powi (ilog2 a) \<le> a" .
  from hi have hi': "n + 1 \<le> 2 ^ bitlen n" by simp
  have rhi: "real n + 1 \<le> 2 ^ bitlen n"
    using of_nat_mono [OF hi', where 'a = real] by simp
  have e1: "ilog2 a + 1 = int (bitlen n)" using e b1 by simp
  note fl(2)
  also note rhi
  also have "(2::real) ^ bitlen n = 2 powi (ilog2 a + 1)" by (simp only: e1 power_int_of_nat)
  finally have upper: "a < 2 powi (ilog2 a + 1)" .
  from lower upper show ?thesis ..
next
  case False
  define b where "b = 1 / a"
  have b: "1 < b" using False assms by (simp add: b_def)
  define n where "n = nat (\<lceil>b\<rceil> - 1)"
  have cb: "2 \<le> \<lceil>b\<rceil>" using b by linarith
  then have n: "0 < n" by (simp add: n_def)
  have nb: "real n < b" "b \<le> real n + 1"
    using cb by (simp_all add: n_def) linarith+
  from bitlen_bounds [OF n] have lo: "2 ^ (bitlen n - 1) \<le> n" and hi: "n < 2 ^ bitlen n"
    by simp_all
  have b1: "1 \<le> bitlen n" using n by (simp add: bitlen_pos)
  have e: "ilog2 a = - int (bitlen n)"
    using False by (simp add: ilog2_def n_def b_def)
  from hi have hi': "n + 1 \<le> 2 ^ bitlen n" by simp
  have rhi: "real n + 1 \<le> 2 ^ bitlen n"
    using of_nat_mono [OF hi', where 'a = real] by simp
  from nb(2) rhi have "b \<le> 2 ^ bitlen n" by (rule order_trans)
  then have "1 / 2 ^ bitlen n \<le> a"
    using assms by (simp add: b_def field_simps)
  moreover have "2 powi (ilog2 a) = 1 / (2::real) ^ bitlen n"
    by (simp only: e power_int_minus_divide power_int_of_nat)
  ultimately have lower: "2 powi (ilog2 a) \<le> a" by simp
  have rlo: "(2::real) ^ (bitlen n - 1) \<le> real n"
    using of_nat_mono [OF lo, where 'a = real] by simp
  from rlo nb(1) have "2 ^ (bitlen n - 1) < b" by (rule le_less_trans)
  then have "a < 1 / 2 ^ (bitlen n - 1)"
    using assms by (simp add: b_def field_simps)
  moreover have e1: "ilog2 a + 1 = - int (bitlen n - 1)" using e b1 by simp
  have "2 powi (ilog2 a + 1) = 1 / (2::real) ^ (bitlen n - 1)"
    by (simp only: e1 power_int_minus_divide power_int_of_nat)
  ultimately have upper: "a < 2 powi (ilog2 a + 1)" by simp
  from lower upper show ?thesis ..
qed

lemma ilog2_unique:
  assumes "2 powi E \<le> a" and "a < 2 powi (E + 1)"
  shows "ilog2 a = E"
proof -
  have pos: "0 < a"
    using assms(1) by (rule less_le_trans [rotated]) simp
  from ilog2_bounds [OF pos] have l: "2 powi (ilog2 a) \<le> a" and u: "a < 2 powi (ilog2 a + 1)"
    by simp_all
  from assms(1) u have "(2::real) powi E < 2 powi (ilog2 a + 1)" by simp
  then have "E < ilog2 a + 1" by (rule powi2_less_cancel)
  moreover from l assms(2) have "(2::real) powi (ilog2 a) < 2 powi (E + 1)" by simp
  then have "ilog2 a < E + 1" by (rule powi2_less_cancel)
  ultimately show ?thesis by simp
qed

lemma ilog2_mono:
  assumes "0 < a" and "a \<le> b"
  shows "ilog2 a \<le> ilog2 b"
proof -
  from assms have pb: "0 < b" by simp
  from ilog2_bounds [OF assms(1)] have "2 powi (ilog2 a) \<le> a" by simp
  also note assms(2)
  also from ilog2_bounds [OF pb] have "b < 2 powi (ilog2 b + 1)" by simp
  finally have "(2::real) powi (ilog2 a) < 2 powi (ilog2 b + 1)" .
  then have "ilog2 a < ilog2 b + 1" by (rule powi2_less_cancel)
  then show ?thesis by simp
qed

lemma roundEven_of_int: "roundEven (of_int k) = k"
  by (simp add: roundEven_def)

lemma roundEven_floor: "\<lfloor>m\<rfloor> \<le> roundEven m \<and> roundEven m \<le> \<lfloor>m\<rfloor> + 1"
  by (simp add: roundEven_def Let_def)

lemma roundEven_mono:
  assumes "m \<le> m'"
  shows "roundEven m \<le> roundEven m'"
proof (cases "\<lfloor>m\<rfloor> = \<lfloor>m'\<rfloor>")
  case True
  with assms have "m - of_int \<lfloor>m\<rfloor> \<le> m' - of_int \<lfloor>m'\<rfloor>" by simp
  with True show ?thesis
    by (auto simp: roundEven_def Let_def)
next
  case False
  with assms have "\<lfloor>m\<rfloor> < \<lfloor>m'\<rfloor>"
    using floor_mono [OF assms] by simp
  then have "\<lfloor>m\<rfloor> + 1 \<le> \<lfloor>m'\<rfloor>" by simp
  with roundEven_floor [of m] roundEven_floor [of m'] show ?thesis by linarith
qed

lemma float64_pos:
  "0 < x \<Longrightarrow> float64 x = of_int (roundEven (x / 2 powi (ilog2 x - 52))) * 2 powi (ilog2 x - 52)"
  by (simp add: float64_def Let_def pow2_powi)

lemma scaled_range:
  assumes "0 < x"
  shows "2 ^ 52 \<le> x / 2 powi (ilog2 x - 52) \<and> x / 2 powi (ilog2 x - 52) < 2 ^ 53"
proof -
  from ilog2_bounds [OF assms] have l: "2 powi (ilog2 x) \<le> x" and u: "x < 2 powi (ilog2 x + 1)"
    by simp_all
  have u0: "(0::real) < 2 powi (ilog2 x - 52)" by simp
  have a: "(2::real) powi (ilog2 x) = 2 ^ 52 * 2 powi (ilog2 x - 52)"
    using power_int_add [of "2::real" 52 "ilog2 x - 52"] by simp
  have b: "(2::real) powi (ilog2 x + 1) = 2 ^ 53 * 2 powi (ilog2 x - 52)"
    using power_int_add [of "2::real" 53 "ilog2 x - 52"] by (simp add: ac_simps)
  from l a have "2 ^ 52 * 2 powi (ilog2 x - 52) \<le> x" by simp
  then have lo: "2 ^ 52 \<le> x / 2 powi (ilog2 x - 52)"
    using u0 by (simp only: pos_le_divide_eq)
  from u b have "x < 2 ^ 53 * 2 powi (ilog2 x - 52)" by simp
  then have hi: "x / 2 powi (ilog2 x - 52) < 2 ^ 53"
    using u0 by (simp only: pos_divide_less_eq)
  from lo hi show ?thesis ..
qed

lemma float64_range:
  assumes "0 < x"
  shows "2 powi (ilog2 x) \<le> float64 x \<and> float64 x \<le> 2 powi (ilog2 x + 1)"
proof -
  let ?u = "(2::real) powi (ilog2 x - 52)"
  from scaled_range [OF assms] have lo: "2 ^ 52 \<le> x / ?u" and hi: "x / ?u < 2 ^ 53"
    by simp_all
  have "roundEven (of_int (2 ^ 52)) \<le> roundEven (x / ?u)"
    by (rule roundEven_mono) (use lo in simp)
  then have rl: "2 ^ 52 \<le> roundEven (x / ?u)"
    by (simp only: roundEven_of_int)
  have "roundEven (x / ?u) \<le> roundEven (of_int (2 ^ 53))"
    by (rule roundEven_mono) (use hi in simp)
  then have rh: "roundEven (x / ?u) \<le> 2 ^ 53"
    by (simp only: roundEven_of_int)
  have u0: "0 < ?u" by simp
  have a: "(2::real) powi (ilog2 x) = 2 ^ 52 * ?u"
    using power_int_add [of "2::real" 52 "ilog2 x - 52"] by simp
  have b: "(2::real) powi (ilog2 x + 1) = 2 ^ 53 * ?u"
    using power_int_add [of "2::real" 53 "ilog2 x - 52"] by (simp add: ac_simps)
  from rl have "(2::real) ^ 52 \<le> of_int (roundEven (x / ?u))"
    using of_int_le_iff [of "2 ^ 52" "roundEven (x / ?u)", where 'a = real] by simp
  then have l: "2 ^ 52 * ?u \<le> of_int (roundEven (x / ?u)) * ?u"
    using u0 by (simp only: mult_le_cancel_right_pos)
  from rh have "of_int (roundEven (x / ?u)) \<le> (2::real) ^ 53"
    using of_int_le_iff [of "roundEven (x / ?u)" "2 ^ 53", where 'a = real] by simp
  then have h: "of_int (roundEven (x / ?u)) * ?u \<le> 2 ^ 53 * ?u"
    using u0 by (simp only: mult_le_cancel_right_pos)
  from l h show ?thesis
    by (simp only: float64_pos [OF assms] a b)
qed

lemma float64_mono_pos:
  assumes "0 < x" and "x \<le> y"
  shows "float64 x \<le> float64 y"
proof (cases "ilog2 x = ilog2 y")
  case True
  from assms have py: "0 < y" by simp
  let ?u = "(2::real) powi (ilog2 y - 52)"
  have u0: "0 < ?u" by simp
  from assms(2) have "x / ?u \<le> y / ?u"
    by (rule divide_right_mono) simp
  then have "roundEven (x / ?u) \<le> roundEven (y / ?u)"
    by (rule roundEven_mono)
  then have "(of_int (roundEven (x / ?u)) :: real) \<le> of_int (roundEven (y / ?u))"
    by simp
  then have "of_int (roundEven (x / ?u)) * ?u \<le> of_int (roundEven (y / ?u)) * ?u"
    using u0 by (simp only: mult_le_cancel_right_pos)
  then show ?thesis
    by (simp only: float64_pos [OF assms(1)] float64_pos [OF py] True)
next
  case False
  from assms have py: "0 < y" by simp
  from ilog2_mono [OF assms] False have "ilog2 x + 1 \<le> ilog2 y" by simp
  then have "(2::real) powi (ilog2 x + 1) \<le> 2 powi (ilog2 y)"
    by (rule power_int_increasing) simp
  with float64_range [OF assms(1)] float64_range [OF py] show ?thesis
    by linarith
qed

lemma float64_nonneg: "0 \<le> x \<Longrightarrow> 0 \<le> float64 x"
proof (cases "x = 0")
  case True
  then show ?thesis by (simp add: float64_def)
next
  case False
  assume "0 \<le> x"
  with False have pos: "0 < x" by simp
  have "(0::real) \<le> 2 powi (ilog2 x)" by simp
  with float64_range [OF pos] show ?thesis by linarith
qed

lemma float64_mono:
  assumes "0 \<le> x" and "x \<le> y"
  shows "float64 x \<le> float64 y"
proof (cases "x = 0")
  case True
  from assms have "0 \<le> y" by simp
  from float64_nonneg [OF this] True show ?thesis by (simp add: float64_def)
next
  case False
  with assms have "0 < x" by simp
  then show ?thesis using assms(2) by (rule float64_mono_pos)
qed

lemma float64_repr:
  assumes "0 < k" and "k < 2 ^ 53"
  shows "float64 (of_int k * 2 powi s) = of_int k * 2 powi s"
proof -
  let ?x = "of_int k * (2::real) powi s"
  define L where "L = ilog2 (of_int k)"
  have kpos: "(0::real) < of_int k" using assms(1) by simp
  from ilog2_bounds [OF kpos]
  have kl: "2 powi L \<le> (of_int k :: real)" and ku: "(of_int k :: real) < 2 powi (L + 1)"
    by (simp_all add: L_def)
  have "(of_int k :: real) < of_int (2 ^ 53)"
    using assms(2) by (simp only: of_int_less_iff)
  then have "(of_int k :: real) < 2 powi 53" by simp
  with kl have "(2::real) powi L < 2 powi 53" by (rule le_less_trans)
  then have L52: "L \<le> 52" using powi2_less_cancel [of L 53] by simp
  have xpos: "0 < ?x" using kpos by simp
  have s0: "(0::real) < 2 powi s" by simp
  have "2 powi (L + s) = (2::real) powi L * 2 powi s"
    by (rule power_int_add) simp
  also have "\<dots> \<le> ?x"
    using kl s0 by (simp only: mult_le_cancel_right_pos)
  finally have xl: "2 powi (L + s) \<le> ?x" .
  have "?x < 2 powi (L + 1) * 2 powi s"
    using ku s0 by (simp only: mult_less_cancel_right_pos)
  also have "\<dots> = 2 powi (L + s + 1)"
    using power_int_add [of "2::real" "L + 1" s] by (simp add: ac_simps)
  finally have xu: "?x < 2 powi (L + s + 1)" .
  from xl xu have E: "ilog2 ?x = L + s" by (rule ilog2_unique)
  have split: "(2::real) powi s = 2 powi (52 - L) * 2 powi (L + s - 52)"
    using power_int_add [of "2::real" "52 - L" "L + s - 52"] by simp
  have nn: "(2::real) powi (52 - L) = of_int (2 ^ nat (52 - L))"
    using L52 by (simp add: power_int_def)
  have u0: "(2::real) powi (L + s - 52) \<noteq> 0" by simp
  have "?x / 2 powi (L + s - 52) = of_int k * 2 powi (52 - L)"
    using u0 by (simp add: split)
  also have "\<dots> = of_int (k * 2 ^ nat (52 - L))"
    by (simp add: nn)
  finally have scaled: "?x / 2 powi (L + s - 52) = of_int (k * 2 ^ nat (52 - L))" .
  have "float64 ?x = of_int (roundEven (?x / 2 powi (L + s - 52))) * 2 powi (L + s - 52)"
    using float64_pos [OF xpos] by (simp only: E)
  also have "\<dots> = of_int (k * 2 ^ nat (52 - L)) * 2 powi (L + s - 52)"
    by (simp only: scaled roundEven_of_int)
  also have "\<dots> = of_int k * (2 powi (52 - L) * 2 powi (L + s - 52))"
    by (simp add: nn)
  also have "\<dots> = ?x"
    by (simp only: split [symmetric])
  finally show ?thesis .
qed

lemma float64_of_int:
  assumes "0 \<le> k" and "k < 2 ^ 53"
  shows "float64 (of_int k) = of_int k"
proof (cases "k = 0")
  case True
  then show ?thesis by (simp add: float64_def)
next
  case False
  with assms(1) have "0 < k" by simp
  from float64_repr [OF this assms(2), of 0] show ?thesis by simp
qed

text \<open>A \<open>float64\<close> sum or quotient stays below a representable bound on its exact value.\<close>

lemma float64_le_repr:
  assumes "0 \<le> x" and "x \<le> of_int k * 2 powi s" and "0 < k" and "k < 2 ^ 53"
  shows "float64 x \<le> of_int k * 2 powi s"
  using float64_mono [OF assms(1,2)] float64_repr [OF assms(3,4), of s] by simp

lemma float64_ge_of_int:
  assumes "0 \<le> k" and "k < 2 ^ 53" and "of_int k \<le> x"
  shows "of_int k \<le> float64 x"
proof -
  have "(0::real) \<le> of_int k" using assms(1) by simp
  from float64_mono [OF this assms(3)] float64_of_int [OF assms(1,2)] show ?thesis by simp
qed

text \<open>
  The shape of \<open>Seconds\<close>, \<open>Minutes\<close> and \<open>Hours\<close>: \<open>q\<close> whole units and \<open>n\<close> of the \<open>U\<close>
  nanoseconds of a unit, with \<open>U \<le> 2\<^sup>p\<close>. The \<open>float64\<close> sum lies between \<open>q\<close> and
  \<open>q + 1 - 2\<^sup>-\<^sup>p\<close> as long as that bound is a \<open>float64\<close>.
\<close>

lemma units_and_fraction:
  fixes q n U :: int and p :: nat
  assumes q: "0 \<le> q" and qp: "(q + 1) * 2 ^ p \<le> 2 ^ 53"
    and n: "0 \<le> n" "n < U" and U: "U \<le> 2 ^ p" and p: "0 < p"
  shows "of_int q \<le> float64 (float64 (of_int q) + float64 (float64 (of_int n) / of_int U)) \<and>
         float64 (float64 (of_int q) + float64 (float64 (of_int n) / of_int U))
           \<le> of_int ((q + 1) * 2 ^ p - 1) * 2 powi (- int p)"
proof -
  have p1: "(1::int) \<le> 2 ^ p" by simp
  have p2: "(2::int) \<le> 2 ^ p" using p by (cases p) simp_all
  have "q + 1 \<le> (q + 1) * 2 ^ p" using q p1 by (simp add: mult_le_cancel_left1)
  with qp have q53: "q < 2 ^ 53" by simp
  have "1 * 2 ^ p \<le> (q + 1) * (2::int) ^ p"
    using q by (intro mult_right_mono) simp_all
  then have one: "2 ^ p \<le> (q + 1) * (2::int) ^ p" by (simp only: mult_1)
  from one qp have pp: "(2::int) ^ p \<le> 2 ^ 53" by (rule order_trans)
  with n U have n53: "n < 2 ^ 53" by simp
  have Upos: "0 < U" using n by simp
  have fq: "float64 (of_int q) = of_int q" using q q53 by (rule float64_of_int)
  have fn: "float64 (of_int n) = of_int n" using n(1) n53 by (rule float64_of_int)
  define frac where "frac = float64 (of_int n / of_int U)"
  have ex0: "(0::real) \<le> of_int n / of_int U" using n(1) Upos by simp
  have frac0: "0 \<le> frac" unfolding frac_def using ex0 by (rule float64_nonneg)
  have inv: "(2::real) powi (- int p) = 1 / 2 ^ p"
    by (simp add: power_int_minus_divide)
  have "of_int n * (2::real) ^ p \<le> of_int (U - 1) * 2 ^ p"
    using n(2) by (intro mult_right_mono) simp_all
  also have "\<dots> = of_int U * 2 ^ p - 2 ^ p" by (simp add: algebra_simps)
  also have "\<dots> \<le> of_int U * 2 ^ p - of_int U"
    using U of_int_le_iff [of U "2 ^ p", where 'a = real] by simp
  also have "\<dots> = of_int U * of_int (2 ^ p - 1)" by (simp add: algebra_simps)
  finally have cross: "of_int n * (2::real) ^ p \<le> of_int U * of_int (2 ^ p - 1)" .
  have Ur: "(0::real) < of_int U" using Upos by simp
  have "of_int n / of_int U \<le> (of_int (2 ^ p - 1) :: real) / 2 ^ p"
    using cross Ur by (simp add: field_simps)
  then have exb: "of_int n / of_int U \<le> (of_int (2 ^ p - 1) :: real) * 2 powi (- int p)"
    by (simp add: inv)
  have k1: "0 < (2::int) ^ p - 1" using p2 by simp
  have k2: "(2::int) ^ p - 1 < 2 ^ 53" using pp by simp
  have fracb: "frac \<le> of_int (2 ^ p - 1) * 2 powi (- int p)"
    unfolding frac_def using ex0 exb k1 k2 by (rule float64_le_repr)
  let ?s = "of_int q + frac :: real"
  have s0: "0 \<le> ?s" using q frac0 by simp
  have sl: "of_int q \<le> ?s" using frac0 by simp
  have "?s \<le> of_int q + of_int (2 ^ p - 1) * 2 powi (- int p)"
    using fracb by simp
  also have "\<dots> = of_int ((q + 1) * 2 ^ p - 1) * 2 powi (- int p)"
    by (simp add: inv field_simps)
  finally have su: "?s \<le> of_int ((q + 1) * 2 ^ p - 1) * 2 powi (- int p)" .
  have K1: "0 < (q + 1) * 2 ^ p - 1"
    using p2 one by linarith
  have K2: "(q + 1) * 2 ^ p - 1 < 2 ^ 53" using qp by simp
  have lower: "of_int q \<le> float64 ?s" using q q53 sl by (rule float64_ge_of_int)
  have upper: "float64 ?s \<le> of_int ((q + 1) * 2 ^ p - 1) * 2 powi (- int p)"
    using s0 su K1 K2 by (rule float64_le_repr)
  from lower upper show ?thesis
    by (simp only: fq fn frac_def)
qed

lemma below_next_unit:
  fixes q :: int and p :: nat
  shows "of_int ((q + 1) * 2 ^ p - 1) * 2 powi (- int p) < (of_int q + 1 :: real)"
proof -
  have "(of_int ((q + 1) * 2 ^ p - 1) :: real) < of_int ((q + 1) * 2 ^ p)"
    by simp
  then have "(of_int ((q + 1) * 2 ^ p - 1) :: real) < (of_int q + 1) * 2 ^ p" by simp
  then show ?thesis
    by (simp add: power_int_minus_divide field_simps)
qed

lemma quo_nonneg: "0 \<le> a \<Longrightarrow> 0 < b \<Longrightarrow> quo a b = a div b"
  by (simp add: quo_def sgn_if)

lemma rem_nonneg: "0 \<le> a \<Longrightarrow> 0 < b \<Longrightarrow> rem a b = a mod b"
  by (simp add: rem_def sgn_if)

lemma Seconds_bounds:
  assumes "0 \<le> d" and "d < Minute"
  shows "of_int (d div Second) \<le> Duration_Seconds d \<and> Duration_Seconds d < of_int (d div Second) + 1"
proof -
  have q0: "0 \<le> d div 1000000000" using assms(1) by (simp add: pos_imp_zdiv_nonneg_iff)
  have "d div 1000000000 < 60" using assms(2) by (simp add: duration_units)
  then have qp: "(d div 1000000000 + 1) * 2 ^ 30 \<le> 2 ^ 53" by simp
  have n: "0 \<le> d mod 1000000000" "d mod 1000000000 < 1000000000" by simp_all
  have U: "(1000000000::int) \<le> 2 ^ 30" by simp
  note b = units_and_fraction [OF q0 qp n U, simplified]
  have eq: "Duration_Seconds d =
      float64 (float64 (of_int (d div 1000000000)) +
               float64 (float64 (of_int (d mod 1000000000)) / 1000000000))"
    using assms(1) by (simp add: Duration_Seconds_def duration_units quo_nonneg rem_nonneg)
  from b below_next_unit [of "d div 1000000000" 30] show ?thesis
    by (simp add: eq duration_units)
qed

lemma Minutes_bounds:
  assumes "0 \<le> d" and "d < Hour"
  shows "of_int (d div Minute) \<le> Duration_Minutes d \<and> Duration_Minutes d < of_int (d div Minute) + 1"
proof -
  have q0: "0 \<le> d div 60000000000" using assms(1) by (simp add: pos_imp_zdiv_nonneg_iff)
  have "d div 60000000000 < 60" using assms(2) by (simp add: duration_units)
  then have qp: "(d div 60000000000 + 1) * 2 ^ 36 \<le> 2 ^ 53" by simp
  have n: "0 \<le> d mod 60000000000" "d mod 60000000000 < 60000000000" by simp_all
  have U: "(60000000000::int) \<le> 2 ^ 36" by simp
  note b = units_and_fraction [OF q0 qp n U, simplified]
  have eq: "Duration_Minutes d =
      float64 (float64 (of_int (d div 60000000000)) +
               float64 (float64 (of_int (d mod 60000000000)) / 60000000000))"
    using assms(1) by (simp add: Duration_Minutes_def duration_units quo_nonneg rem_nonneg)
  from b below_next_unit [of "d div 60000000000" 36] show ?thesis
    by (simp add: eq duration_units)
qed

lemma Hours_bounds:
  assumes "0 \<le> d" and "d < 2047 * Hour"
  shows "of_int (d div Hour) \<le> Duration_Hours d \<and>
         Duration_Hours d \<le> of_int ((d div Hour + 1) * 2 ^ 42 - 1) * 2 powi (- 42)"
proof -
  have q0: "0 \<le> d div 3600000000000" using assms(1) by (simp add: pos_imp_zdiv_nonneg_iff)
  have "d div 3600000000000 < 2047" using assms(2) by (simp add: duration_units)
  then have qp: "(d div 3600000000000 + 1) * 2 ^ 42 \<le> 2 ^ 53" by simp
  have n: "0 \<le> d mod 3600000000000" "d mod 3600000000000 < 3600000000000" by simp_all
  have U: "(3600000000000::int) \<le> 2 ^ 42" by simp
  have p: "(0::nat) < 42" by simp
  note b = units_and_fraction [OF q0 qp n U p]
  have eq: "Duration_Hours d =
      float64 (float64 (of_int (d div 3600000000000)) +
               float64 (float64 (of_int (d mod 3600000000000)) / of_int 3600000000000))"
    using assms(1) by (simp add: Duration_Hours_def duration_units quo_nonneg rem_nonneg)
  have H: "Hour = 3600000000000" by (simp add: duration_units)
  from b show ?thesis
    by (simp only: eq H) simp
qed

lemma days_bounds:
  assumes "0 \<le> d" and "d < 64 * 24 * Hour"
  shows "of_int (d div (24 * Hour)) \<le> float64 (Duration_Hours d / 24) \<and>
         float64 (Duration_Hours d / 24) < of_int (d div (24 * Hour)) + 1"
proof -
  define h where "h = d div Hour"
  define D where "D = h div 24"
  have Hpos: "0 < Hour" by (simp add: duration_units)
  have h0: "0 \<le> h" using assms(1) Hpos by (simp add: h_def pos_imp_zdiv_nonneg_iff)
  have h1: "h < 1536" using assms(2) by (simp add: h_def duration_units)
  have D0: "0 \<le> D" using h0 by (simp add: D_def pos_imp_zdiv_nonneg_iff)
  have D1: "D < 64" using h1 by (simp add: D_def)
  have Dd: "d div (24 * Hour) = D"
    using zdiv_zmult2_eq [of 24 d Hour] by (simp add: D_def h_def mult.commute)
  have dl: "d < 2047 * Hour" using assms(2) Hpos by simp
  from Hours_bounds [OF assms(1) dl]
  have lo: "of_int h \<le> Duration_Hours d"
    and hi: "Duration_Hours d \<le> of_int ((h + 1) * 2 ^ 42 - 1) * 2 powi (- 42)"
    by (simp_all add: h_def)
  have hD: "24 * D \<le> h" "h < 24 * D + 24"
    unfolding D_def by (simp_all add: algebra_simps)
  have x0: "0 \<le> Duration_Hours d / 24"
    using lo h0 by simp
  have "(of_int D :: real) * 24 \<le> of_int h"
    using hD(1) of_int_le_iff [of "24 * D" h, where 'a = real] by simp
  with lo have xl: "of_int D \<le> Duration_Hours d / 24" by simp
  have "h + 1 \<le> 24 * D + 24" using hD(2) by simp
  then have "(h + 1) * 2 ^ 42 - 1 \<le> (24 * D + 24) * 2 ^ 42 - 1"
    by simp
  then have "(of_int ((h + 1) * 2 ^ 42 - 1) :: real) \<le> of_int ((24 * D + 24) * 2 ^ 42 - 1)"
    by (simp only: of_int_le_iff)
  then have "(of_int ((h + 1) * 2 ^ 42 - 1) :: real) * 2 powi (- 42)
      \<le> of_int ((24 * D + 24) * 2 ^ 42 - 1) * 2 powi (- 42)"
    by (rule mult_right_mono) simp
  with hi have "Duration_Hours d \<le> of_int ((24 * D + 24) * 2 ^ 42 - 1) * 2 powi (- 42)"
    by (rule order_trans)
  then have "Duration_Hours d / 24 \<le> of_int ((24 * D + 24) * 2 ^ 42 - 1) * 2 powi (- 42) / 24"
    by (rule divide_right_mono) simp
  also have "\<dots> \<le> of_int ((D + 1) * 2 ^ 47 - 1) * 2 powi (- 47)"
    by (simp add: field_simps)
  finally have xu: "Duration_Hours d / 24 \<le> of_int ((D + 1) * 2 ^ 47 - 1) * 2 powi (- 47)" .
  have K1: "0 < (D + 1) * 2 ^ 47 - 1" using D0 by simp
  have K2: "(D + 1) * 2 ^ 47 - 1 < 2 ^ 53" using D1 by simp
  have D53: "D < 2 ^ 53" using D1 by simp
  have lower: "of_int D \<le> float64 (Duration_Hours d / 24)"
    using D0 D53 xl by (rule float64_ge_of_int)
  have "float64 (Duration_Hours d / 24) \<le> of_int ((D + 1) * 2 ^ 47 - 1) * 2 powi (- int 47)"
    using x0 xu K1 K2 by (intro float64_le_repr) simp_all
  with below_next_unit [of D 47]
  have upper: "float64 (Duration_Hours d / 24) < of_int D + 1" by simp
  from lower upper show ?thesis by (simp only: Dd)
qed

lemma int_of_float64_floor:
  "of_int z \<le> f \<Longrightarrow> f < of_int z + 1 \<Longrightarrow> 0 \<le> z \<Longrightarrow> int_of_float64 f = z"
  by (simp add: int_of_float64_def floor_unique)

text \<open>
  Below 64 days the \<open>float64\<close> detour is harmless: the age is the truncated count of
  whole seconds, minutes, hours or days, as the four-tier rule says.
\<close>

lemma formatAge_exact_below_64_days:
  assumes "0 \<le> d" and "d < 64 * 24 * Hour"
  shows "formatAge d =
     (if d < Minute then Sprintf_d (d div Second) @ ''s''
      else if d < Hour then Sprintf_d (d div Minute) @ ''m''
      else if d < 24 * Hour then Sprintf_d (d div Hour) @ ''h''
      else Sprintf_d (d div (24 * Hour)) @ ''d'')"
proof -
  have s: "d < Minute \<Longrightarrow> int_of_float64 (Duration_Seconds d) = d div Second"
  proof -
    assume lt: "d < Minute"
    have "0 \<le> d div Second"
      using assms(1) by (simp add: duration_units pos_imp_zdiv_nonneg_iff)
    with Seconds_bounds [OF assms(1) lt] show ?thesis
      by (intro int_of_float64_floor) simp_all
  qed
  have m: "d < Hour \<Longrightarrow> int_of_float64 (Duration_Minutes d) = d div Minute"
  proof -
    assume lt: "d < Hour"
    have "0 \<le> d div Minute"
      using assms(1) by (simp add: duration_units pos_imp_zdiv_nonneg_iff)
    with Minutes_bounds [OF assms(1) lt] show ?thesis
      by (intro int_of_float64_floor) simp_all
  qed
  have h: "d < 24 * Hour \<Longrightarrow> int_of_float64 (Duration_Hours d) = d div Hour"
  proof -
    assume lt: "d < 24 * Hour"
    then have lt': "d < 2047 * Hour" by (simp add: duration_units)
    have q0: "0 \<le> d div Hour"
      using assms(1) by (simp add: duration_units pos_imp_zdiv_nonneg_iff)
    from Hours_bounds [OF assms(1) lt'] below_next_unit [of "d div Hour" 42]
    have "of_int (d div Hour) \<le> Duration_Hours d" "Duration_Hours d < of_int (d div Hour) + 1"
      by simp_all
    then show ?thesis using q0 by (rule int_of_float64_floor)
  qed
  have dd: "int_of_float64 (float64 (Duration_Hours d / 24)) = d div (24 * Hour)"
  proof -
    have "0 \<le> d div (24 * Hour)"
      using assms(1) by (simp add: duration_units pos_imp_zdiv_nonneg_iff)
    with days_bounds [OF assms] show ?thesis
      by (intro int_of_float64_floor) simp_all
  qed
  show ?thesis
    by (simp add: formatAge_def s m h dd)
qed

text \<open>
  C8 fails on the code in its last tier. The four durations the claim names are
  formatted as it says (and so is every duration below 64 days, by the lemma above).
  But a duration of 172 days less one nanosecond, whose truncated whole-day count is
  171, is formatted "172d": \<open>Duration.Hours\<close> adds \<open>4127\<close> and
  \<open>3599999999999 / 3600000000000\<close> in \<open>float64\<close>, and the sum rounds to \<open>4128\<close>.
\<close>

theorem formatAge_rounds_up_a_day:
  "formatAge (45 * Second) = ''45s'' \<and>
   formatAge (90 * Second) = ''1m'' \<and>
   formatAge (3700 * Second) = ''1h'' \<and>
   formatAge (90000 * Second) = ''1d'' \<and>
   0 \<le> 172 * 24 * Hour - 1 * Nanosecond \<and>
   172 * 24 * Hour - 1 * Nanosecond < 172 * 24 * Hour \<and>
   quo (172 * 24 * Hour - 1 * Nanosecond) (24 * Hour) = 171 \<and>
   Duration_Hours (172 * 24 * Hour - 1 * Nanosecond) = 4128 \<and>
   formatAge (172 * 24 * Hour - 1 * Nanosecond) = ''172d''"
  by (simp add: formatAge_def duration_units quo_def int_of_float64_def
      Seconds_45s Minutes_90s Hours_3700s Hours_90000s float64_25_24 Hours_172d_less_1ns
      float64_172 Sprintf_d_45 Sprintf_d_1 Sprintf_d_172)

section \<open>Properties of the fetchers\<close>

subsection \<open>Auxiliary facts\<close>

lemma Ready_parseStatus:
  "Ready (parseStatus r conds) =
     (let rs = filter (\<lambda>c. mc_Type c = ''Ready'') conds in
        if rs = [] then Ready r else mc_Status (last rs) = ''True'')"
  by (induction conds arbitrary: r) (simp_all add: Let_def ConditionTrue_def)

lemma Ready_appendConditions: "Ready (appendConditions r conds) = Ready r"
  by (induction conds arbitrary: r) simp_all

lemma Ready_parseStatusLast:
  "Ready (parseStatusLast r conds) =
     (if conds = [] then Ready r else mc_Status (last conds) = ''True'')"
  by (simp add: parseStatusLast_def Let_def Ready_appendConditions ConditionTrue_def last_conv_nth)

lemma Ready_GitRepository_Resource:
  "Ready (GitRepository_Resource tp repo) =
     (let rs = filter (\<lambda>c. mc_Type c = ''Ready'') (gr_Conditions repo) in
        rs \<noteq> [] \<and> mc_Status (last rs) = ''True'')"
  by (simp add: GitRepository_Resource_def Let_def Ready_parseStatus split: option.split)

lemma Ready_Kustomization_Resource:
  "Ready (Kustomization_Resource tp ks) =
     (let rs = filter (\<lambda>c. mc_Type c = ''Ready'') (ks_Conditions ks) in
        rs \<noteq> [] \<and> mc_Status (last rs) = ''True'')"
  by (simp add: Kustomization_Resource_def Let_def Ready_parseStatus)

lemma Ready_HelmRelease_Resource:
  "HelmRelease_Resource tp hr = Some r \<Longrightarrow>
   Ready r =
     (let rs = filter (\<lambda>c. mc_Type c = ''Ready'') (hl_Conditions hr) in
        rs \<noteq> [] \<and> mc_Status (last rs) = ''True'')"
proof (cases "hl_Chart hr")
  case None
  assume "HelmRelease_Resource tp hr = Some r"
  with None show ?thesis
    by (simp add: HelmRelease_Resource_def)
next
  case (Some chart)
  assume "HelmRelease_Resource tp hr = Some r"
  then have "r = the (HelmRelease_Resource tp hr)"
    by simp
  then show ?thesis
    using Some by (simp add: HelmRelease_Resource_def Let_def Ready_parseStatus)
qed

lemma HelmRelease_Resource_None:
  "(HelmRelease_Resource tp hr = None) = (hl_Chart hr = None)"
  by (simp add: HelmRelease_Resource_def Let_def split: option.split)

text \<open>
  The loop of ListHelmReleases: with a chart on every release it returns the Resources
  of the releases, in order, after those it started from; otherwise it panics.
\<close>

lemma helmReleaseResources_charts:
  "\<forall>hr \<in> set hrs. hl_Chart hr \<noteq> None \<Longrightarrow>
   \<exists>rs. helmReleaseResources tp resources hrs = Returned (resources @ rs) \<and>
        map Some rs = map (HelmRelease_Resource tp) hrs"
proof (induction hrs arbitrary: resources)
  case Nil
  then show ?case by simp
next
  case (Cons hr hrs)
  from Cons.prems have "hl_Chart hr \<noteq> None"
    by simp
  then obtain r where r: "HelmRelease_Resource tp hr = Some r"
    using HelmRelease_Resource_None [of tp hr] by (cases "HelmRelease_Resource tp hr") auto
  from Cons.prems have "\<forall>x \<in> set hrs. hl_Chart x \<noteq> None"
    by simp
  from Cons.IH [OF this, of "resources @ [r]"]
  obtain rs where rs: "helmReleaseResources tp (resources @ [r]) hrs = Returned ((resources @ [r]) @ rs)"
    "map Some rs = map (HelmRelease_Resource tp) hrs"
    by blast
  show ?case
  proof (intro exI conjI)
    show "helmReleaseResources tp resources (hr # hrs) = Returned (resources @ (r # rs))"
      using r rs(1) by simp
    show "map Some (r # rs) = map (HelmRelease_Resource tp) (hr # hrs)"
      using r rs(2) by simp
  qed
qed

lemma helmReleaseResources_nil_chart:
  "\<exists>hr \<in> set hrs. hl_Chart hr = None \<Longrightarrow>
   helmReleaseResources tp resources hrs = Panicked nilDereference"
proof (induction hrs arbitrary: resources)
  case Nil
  then show ?case by simp
next
  case (Cons hr hrs)
  show ?case
  proof (cases "HelmRelease_Resource tp hr")
    case None
    then show ?thesis by simp
  next
    case (Some r)
    then have "hl_Chart hr \<noteq> None"
      using HelmRelease_Resource_None [of tp hr] by simp
    with Cons.prems have "\<exists>x \<in> set hrs. hl_Chart x = None"
      by auto
    from Cons.IH [OF this] Some show ?thesis
      by simp
  qed
qed

lemma Ready_HelmRepository_Resource:
  "Ready (HelmRepository_Resource tp repo) =
     (hp_Conditions repo \<noteq> [] \<and> mc_Status (last (hp_Conditions repo)) = ''True'')"
  by (simp add: HelmRepository_Resource_def Let_def Ready_parseStatusLast)

lemma single_Ready_condition:
  assumes "length (filter (\<lambda>c. mc_Type c = ''Ready'') conds) \<le> 1"
  shows "(let rs = filter (\<lambda>c. mc_Type c = ''Ready'') conds in
            rs \<noteq> [] \<and> mc_Status (last rs) = ''True'')
         = (\<exists>c \<in> set conds. mc_Type c = ''Ready'' \<and> mc_Status c = ''True'')"
proof -
  define rs where "rs = filter (\<lambda>c. mc_Type c = ''Ready'') conds"
  have members: "set rs = {c \<in> set conds. mc_Type c = ''Ready''}"
    by (auto simp: rs_def)
  from assms have "rs = [] \<or> (\<exists>x. rs = [x])"
    unfolding rs_def [symmetric] by (cases rs) (auto simp: le_Suc_eq)
  then show ?thesis
  proof
    assume "rs = []"
    with members show ?thesis
      unfolding rs_def [symmetric] Let_def by auto
  next
    assume "\<exists>x. rs = [x]"
    then obtain x where x: "rs = [x]" by blast
    with members have "{c \<in> set conds. mc_Type c = ''Ready''} = {x}" by simp
    then show ?thesis
      unfolding rs_def [symmetric] Let_def using x by auto
  qed
qed

text \<open>What \<open>safeList\<close> does on a client that is there.\<close>

lemma safeList_Some:
  "embeddedClient cl = Some k \<Longrightarrow>
   safeList (Some cl) target list ctx opts =
     (case list k ctx opts of
        Returned items \<Rightarrow> Inr items
      | Failed err \<Rightarrow> Inl err
      | Panicked r \<Rightarrow> Inl (recoveredPanic r),
      [ListCall target ctx opts])"
  by (simp add: safeList_def split: CallResult.split)

text \<open>
  A listed release without a chart makes ListHelmReleases panic after its list call.
\<close>

lemma ListHelmReleases_nil_chart:
  assumes "embeddedClient cl = Some k"
    and "List_HelmRelease k ctx (listOptions ns) = Returned hrs"
    and "\<exists>hr \<in> set hrs. hl_Chart hr = None"
  shows "ListHelmReleases tp (Some cl) ctx ns
     = (Panicked nilDereference, [ListCall HelmReleaseList_v2beta1 ctx (listOptions ns)])"
  using assms(1,2) helmReleaseResources_nil_chart [OF assms(3)]
  by (simp add: ListHelmReleases_def safeList_Some)

text \<open>The classification of the sample errors.\<close>

lemma isCRDMissing_notFoundError: "isCRDMissing notFoundError"
  by (simp add: isCRDMissing_def IgnoreNotFound_def notFoundError_def)

lemma isCRDMissing_noMatchError: "isCRDMissing noMatchError"
  by (simp add: isCRDMissing_def IgnoreNotFound_def noMatchError_def strings_Contains_def
      sublist_code prefix_code)

lemma not_isCRDMissing_refusedError: "\<not> isCRDMissing refusedError"
  by (simp add: isCRDMissing_def IgnoreNotFound_def refusedError_def strings_Contains_def
      sublist_code prefix_code)

lemma not_isCRDMissing_conflictError: "\<not> isCRDMissing conflictError"
  by (simp add: isCRDMissing_def IgnoreNotFound_def conflictError_def strings_Contains_def
      sublist_code prefix_code)

lemma not_isCRDMissing_nilDereference: "\<not> isCRDMissing (recoveredPanic nilDereference)"
  by (simp add: isCRDMissing_def IgnoreNotFound_def recoveredPanic_def nilDereference_def
      strings_Contains_def sublist_code prefix_code)

lemma listOptions_empty: "listOptions '''' = []"
  by (simp add: listOptions_def)

subsection \<open>Readiness\<close>

text \<open>
  C1 (as amended). The GitRepository, the Kustomization and the HelmRelease fetcher
  return one Resource per listed object, in order (the HelmRelease fetcher when every
  listed release has a chart). For these three kinds \<open>Ready\<close> is true exactly when the
  last condition of type "Ready" in the object's list has status "True"; so with no
  "Ready" condition, or with "Ready"/"Unknown", it is false, and when the list holds at
  most one "Ready" condition it is true exactly when the object carries "Ready" with
  status "True".
\<close>

theorem ready_by_kind:
  assumes "embeddedClient cl = Some k"
  shows
    "(List_GitRepository k ctx (listOptions ns) = Returned gs \<longrightarrow>
        fst (ListGitRepositories tp (Some cl) ctx ns) = Inr (map (GitRepository_Resource tp) gs)) \<and>
     (List_Kustomization k ctx (listOptions ns) = Returned kss \<longrightarrow>
        fst (ListKustomizations tp (Some cl) ctx ns) = Inr (map (Kustomization_Resource tp) kss)) \<and>
     (List_HelmRelease k ctx (listOptions ns) = Returned hrs \<and> (\<forall>hr \<in> set hrs. hl_Chart hr \<noteq> None) \<longrightarrow>
        (\<exists>rs. fst (ListHelmReleases tp (Some cl) ctx ns) = Returned rs \<and>
              map Some rs = map (HelmRelease_Resource tp) hrs)) \<and>
     (\<forall>g. Ready (GitRepository_Resource tp g) =
        (let rs = filter (\<lambda>c. mc_Type c = ''Ready'') (gr_Conditions g) in
           rs \<noteq> [] \<and> mc_Status (last rs) = ''True'')) \<and>
     (\<forall>ks. Ready (Kustomization_Resource tp ks) =
        (let rs = filter (\<lambda>c. mc_Type c = ''Ready'') (ks_Conditions ks) in
           rs \<noteq> [] \<and> mc_Status (last rs) = ''True'')) \<and>
     (\<forall>hr r. HelmRelease_Resource tp hr = Some r \<longrightarrow>
        Ready r =
        (let rs = filter (\<lambda>c. mc_Type c = ''Ready'') (hl_Conditions hr) in
           rs \<noteq> [] \<and> mc_Status (last rs) = ''True'')) \<and>
     (\<forall>conds. length (filter (\<lambda>c. mc_Type c = ''Ready'') conds) \<le> 1 \<longrightarrow>
        (let rs = filter (\<lambda>c. mc_Type c = ''Ready'') conds in
           rs \<noteq> [] \<and> mc_Status (last rs) = ''True'')
        = (\<exists>c \<in> set conds. mc_Type c = ''Ready'' \<and> mc_Status c = ''True''))"
proof -
  have git: "List_GitRepository k ctx (listOptions ns) = Returned gs \<longrightarrow>
        fst (ListGitRepositories tp (Some cl) ctx ns) = Inr (map (GitRepository_Resource tp) gs)"
    using assms by (simp add: ListGitRepositories_def safeList_Some)
  have kus: "List_Kustomization k ctx (listOptions ns) = Returned kss \<longrightarrow>
        fst (ListKustomizations tp (Some cl) ctx ns) = Inr (map (Kustomization_Resource tp) kss)"
    using assms by (simp add: ListKustomizations_def safeList_Some)
  have rel: "List_HelmRelease k ctx (listOptions ns) = Returned hrs \<and> (\<forall>hr \<in> set hrs. hl_Chart hr \<noteq> None) \<longrightarrow>
        (\<exists>rs. fst (ListHelmReleases tp (Some cl) ctx ns) = Returned rs \<and>
              map Some rs = map (HelmRelease_Resource tp) hrs)"
  proof
    assume h: "List_HelmRelease k ctx (listOptions ns) = Returned hrs \<and> (\<forall>hr \<in> set hrs. hl_Chart hr \<noteq> None)"
    then have "\<forall>hr \<in> set hrs. hl_Chart hr \<noteq> None"
      by simp
    from helmReleaseResources_charts [OF this, of tp "[]"]
    obtain rs where "helmReleaseResources tp [] hrs = Returned rs"
      "map Some rs = map (HelmRelease_Resource tp) hrs"
      by auto
    with h assms show "\<exists>rs. fst (ListHelmReleases tp (Some cl) ctx ns) = Returned rs \<and>
              map Some rs = map (HelmRelease_Resource tp) hrs"
      by (simp add: ListHelmReleases_def safeList_Some)
  qed
  have rdy: "\<forall>hr r. HelmRelease_Resource tp hr = Some r \<longrightarrow>
        Ready r =
        (let rs = filter (\<lambda>c. mc_Type c = ''Ready'') (hl_Conditions hr) in
           rs \<noteq> [] \<and> mc_Status (last rs) = ''True'')"
    using Ready_HelmRelease_Resource by blast
  have single: "\<forall>conds. length (filter (\<lambda>c. mc_Type c = ''Ready'') conds) \<le> 1 \<longrightarrow>
        (let rs = filter (\<lambda>c. mc_Type c = ''Ready'') conds in
           rs \<noteq> [] \<and> mc_Status (last rs) = ''True'')
        = (\<exists>c \<in> set conds. mc_Type c = ''Ready'' \<and> mc_Status c = ''True'')"
    using single_Ready_condition by blast
  have g: "\<forall>g. Ready (GitRepository_Resource tp g) =
        (let rs = filter (\<lambda>c. mc_Type c = ''Ready'') (gr_Conditions g) in
           rs \<noteq> [] \<and> mc_Status (last rs) = ''True'')"
    by (simp only: Ready_GitRepository_Resource simp_thms)
  have ks: "\<forall>ks. Ready (Kustomization_Resource tp ks) =
        (let rs = filter (\<lambda>c. mc_Type c = ''Ready'') (ks_Conditions ks) in
           rs \<noteq> [] \<and> mc_Status (last rs) = ''True'')"
    by (simp only: Ready_Kustomization_Resource simp_thms)
  show ?thesis
    using git kus rel g ks rdy single by (intro conjI)
qed

theorem ready_by_kind_witness:
  "embeddedClient sampleClient = Some sampleCluster \<and>
   List_GitRepository sampleCluster None (listOptions '''')
     = Returned [sampleGitRepository [sampleCondition ''Ready'' ''True'' ''Succeeded'']] \<and>
   fst (ListGitRepositories sampleTime (Some sampleClient) None '''')
     = Inr [GitRepository_Resource sampleTime
              (sampleGitRepository [sampleCondition ''Ready'' ''True'' ''Succeeded''])] \<and>
   Ready (GitRepository_Resource sampleTime
            (sampleGitRepository [sampleCondition ''Ready'' ''True'' ''Succeeded''])) \<and>
   \<not> Ready (GitRepository_Resource sampleTime
            (sampleGitRepository [sampleCondition ''Ready'' ''Unknown'' ''Progressing''])) \<and>
   \<not> Ready (GitRepository_Resource sampleTime
            (sampleGitRepository [sampleCondition ''Reconciling'' ''True'' ''Progressing''])) \<and>
   List_Kustomization sampleCluster None (listOptions '''')
     = Returned [sampleKustomization [sampleCondition ''Ready'' ''True'' ''ReconciliationSucceeded'']] \<and>
   fst (ListKustomizations sampleTime (Some sampleClient) None '''')
     = Inr [Kustomization_Resource sampleTime
              (sampleKustomization [sampleCondition ''Ready'' ''True'' ''ReconciliationSucceeded''])] \<and>
   Ready (Kustomization_Resource sampleTime
            (sampleKustomization [sampleCondition ''Ready'' ''True'' ''ReconciliationSucceeded''])) \<and>
   \<not> Ready (Kustomization_Resource sampleTime
            (sampleKustomization [sampleCondition ''Healthy'' ''True'' ''Succeeded'',
                                  sampleCondition ''Ready'' ''False'' ''BuildFailed''])) \<and>
   List_HelmRelease sampleCluster None (listOptions '''')
     = Returned [sampleHelmRelease [sampleCondition ''Ready'' ''True'' ''ReconciliationSucceeded'']] \<and>
   hl_Chart (sampleHelmRelease [sampleCondition ''Ready'' ''True'' ''ReconciliationSucceeded'']) \<noteq> None \<and>
   (\<exists>r. fst (ListHelmReleases sampleTime (Some sampleClient) None '''') = Returned [r] \<and>
        HelmRelease_Resource sampleTime
          (sampleHelmRelease [sampleCondition ''Ready'' ''True'' ''ReconciliationSucceeded'']) = Some r \<and>
        Ready r) \<and>
   length (filter (\<lambda>c. mc_Type c = ''Ready'') [sampleCondition ''Ready'' ''True'' ''Succeeded'']) \<le> 1 \<and>
   (\<exists>c \<in> set [sampleCondition ''Ready'' ''True'' ''Succeeded''].
      mc_Type c = ''Ready'' \<and> mc_Status c = ''True'')"
proof -
  let ?g = "sampleGitRepository [sampleCondition ''Ready'' ''True'' ''Succeeded'']"
  let ?k = "sampleKustomization [sampleCondition ''Ready'' ''True'' ''ReconciliationSucceeded'']"
  let ?h = "sampleHelmRelease [sampleCondition ''Ready'' ''True'' ''ReconciliationSucceeded'']"
  have cl: "embeddedClient sampleClient = Some sampleCluster"
    by (simp add: sampleClient_def)
  have lg: "List_GitRepository sampleCluster None (listOptions '''') = Returned [?g]"
    and lk: "List_Kustomization sampleCluster None (listOptions '''') = Returned [?k]"
    and lh: "List_HelmRelease sampleCluster None (listOptions '''') = Returned [?h]"
    by (simp_all add: sampleCluster_def)
  have chart: "hl_Chart ?h \<noteq> None"
    by (simp add: sampleHelmRelease_def)
  note th = ready_by_kind [OF cl, where ctx = None and ns = "''''" and tp = sampleTime
      and gs = "[?g]" and kss = "[?k]" and hrs = "[?h]"]
  from th [THEN conjunct1] lg
  have fg: "fst (ListGitRepositories sampleTime (Some sampleClient) None '''')
     = Inr [GitRepository_Resource sampleTime ?g]"
    by simp
  from th [THEN conjunct2, THEN conjunct1] lk
  have fk: "fst (ListKustomizations sampleTime (Some sampleClient) None '''')
     = Inr [Kustomization_Resource sampleTime ?k]"
    by simp
  from th [THEN conjunct2, THEN conjunct2, THEN conjunct1] lh chart
  obtain rs where rs: "fst (ListHelmReleases sampleTime (Some sampleClient) None '''') = Returned rs"
    "map Some rs = [HelmRelease_Resource sampleTime ?h]"
    by auto
  from rs(2) obtain r where r: "rs = [r]" "HelmRelease_Resource sampleTime ?h = Some r"
    by (cases rs) auto
  from th have ruleG: "\<forall>g. Ready (GitRepository_Resource sampleTime g) =
        (let rs = filter (\<lambda>c. mc_Type c = ''Ready'') (gr_Conditions g) in
           rs \<noteq> [] \<and> mc_Status (last rs) = ''True'')"
    by (elim conjE) assumption
  from th have ruleK: "\<forall>ks. Ready (Kustomization_Resource sampleTime ks) =
        (let rs = filter (\<lambda>c. mc_Type c = ''Ready'') (ks_Conditions ks) in
           rs \<noteq> [] \<and> mc_Status (last rs) = ''True'')"
    by (elim conjE) assumption
  from th have ruleH: "\<forall>hr r. HelmRelease_Resource sampleTime hr = Some r \<longrightarrow>
        Ready r =
        (let rs = filter (\<lambda>c. mc_Type c = ''Ready'') (hl_Conditions hr) in
           rs \<noteq> [] \<and> mc_Status (last rs) = ''True'')"
    by (elim conjE) assumption
  from th have single: "\<forall>conds. length (filter (\<lambda>c. mc_Type c = ''Ready'') conds) \<le> 1 \<longrightarrow>
        (let rs = filter (\<lambda>c. mc_Type c = ''Ready'') conds in
           rs \<noteq> [] \<and> mc_Status (last rs) = ''True'')
        = (\<exists>c \<in> set conds. mc_Type c = ''Ready'' \<and> mc_Status c = ''True'')"
    by (elim conjE) assumption
  have readyH: "Ready r"
    using ruleH [rule_format, OF r(2)] by (simp add: sampleHelmRelease_def sampleCondition_def)
  have fh: "\<exists>r. fst (ListHelmReleases sampleTime (Some sampleClient) None '''') = Returned [r] \<and>
        HelmRelease_Resource sampleTime ?h = Some r \<and> Ready r"
    using rs(1) r readyH by simp
  have one: "length (filter (\<lambda>c. mc_Type c = ''Ready'') [sampleCondition ''Ready'' ''True'' ''Succeeded'']) \<le> 1"
    by (simp add: sampleCondition_def)
  have ex: "\<exists>c \<in> set [sampleCondition ''Ready'' ''True'' ''Succeeded''].
      mc_Type c = ''Ready'' \<and> mc_Status c = ''True''"
    using single [rule_format, OF one] by (simp add: sampleCondition_def)
  have g1: "Ready (GitRepository_Resource sampleTime ?g)"
    and g2: "\<not> Ready (GitRepository_Resource sampleTime
            (sampleGitRepository [sampleCondition ''Ready'' ''Unknown'' ''Progressing'']))"
    and g3: "\<not> Ready (GitRepository_Resource sampleTime
            (sampleGitRepository [sampleCondition ''Reconciling'' ''True'' ''Progressing'']))"
    by (simp_all add: ruleG [rule_format] sampleGitRepository_def sampleCondition_def)
  have k1: "Ready (Kustomization_Resource sampleTime ?k)"
    and k2: "\<not> Ready (Kustomization_Resource sampleTime
            (sampleKustomization [sampleCondition ''Healthy'' ''True'' ''Succeeded'',
                                  sampleCondition ''Ready'' ''False'' ''BuildFailed'']))"
    by (simp_all add: ruleK [rule_format] sampleKustomization_def sampleCondition_def)
  show ?thesis
    using cl lg fg g1 g2 g3 lk fk k1 k2 lh chart fh one ex by (intro conjI)
qed

text \<open>
  The claim as stated fails. A GitRepository whose list holds Ready/True followed by
  Ready/False comes out not ready though it carries Ready/True. A HelmRepository
  listed at v1beta2 with conditions Ready/False, ArtifactInStorage/True comes out
  ready though it carries no Ready/True, and one with Ready/True, Reconciling/False
  comes out not ready though it carries Ready/True.
\<close>

theorem ready_rule_counterexample:
  "map_sum id (map Ready)
     (fst (ListGitRepositories sampleTime
        (Some \<lparr>embeddedClient = Some (sampleCluster\<lparr>List_GitRepository :=
           (\<lambda>ctx opts. Returned [sampleGitRepository
              [sampleCondition ''Ready'' ''True'' ''Succeeded'',
               sampleCondition ''Ready'' ''False'' ''Failed'']])\<rparr>)\<rparr>)
        None ''''))
     = Inr [False] \<and>
   map_sum id (map Ready)
     (fst (ListHelmRepositories sampleTime
        (Some \<lparr>embeddedClient = Some (sampleCluster\<lparr>List_HelmRepository_v1beta2 :=
           (\<lambda>ctx opts. Returned [sampleHelmRepository
              [sampleCondition ''Ready'' ''False'' ''Failed'',
               sampleCondition ''ArtifactInStorage'' ''True'' ''Succeeded'']])\<rparr>)\<rparr>)
        (Some Background) ''''))
     = Inr [True] \<and>
   \<not> (\<exists>c \<in> set [sampleCondition ''Ready'' ''False'' ''Failed'',
                   sampleCondition ''ArtifactInStorage'' ''True'' ''Succeeded''].
         mc_Type c = ''Ready'' \<and> mc_Status c = ''True'') \<and>
   map_sum id (map Ready)
     (fst (ListHelmRepositories sampleTime
        (Some \<lparr>embeddedClient = Some (sampleCluster\<lparr>List_HelmRepository_v1beta2 :=
           (\<lambda>ctx opts. Returned [sampleHelmRepository
              [sampleCondition ''Ready'' ''True'' ''Succeeded'',
               sampleCondition ''Reconciling'' ''False'' ''Done'']])\<rparr>)\<rparr>)
        (Some Background) ''''))
     = Inr [False]"
  by (simp add: ListHelmRepositories_def ListGitRepositories_def safeList_Some
      Ready_HelmRepository_Resource Ready_GitRepository_Resource
      sampleHelmRepository_def sampleGitRepository_def sampleCondition_def)

subsection \<open>The version fallback\<close>

text \<open>
  C2. A list call whose error is classified as "kind not installed" makes exactly the
  HelmRepository fetcher retry, once, against v1: it issues the v1beta2 call and then
  the v1 call and nothing else. When the v1 call is classified the same way the fetcher
  returns the empty sequence and no error. An error that is not so classified, at the
  first or the second call, comes back wrapped with the kind and the version(s) tried,
  and no further call follows it. The fetchers of the other three kinds issue their
  one call whatever it answers.
\<close>

theorem fallback_once_for_HelmRepository:
  assumes "embeddedClient cl = Some k"
  shows
    "(listError (List_HelmRepository_v1beta2 k (Some cx) (listOptions ns)) = Some e \<and> isCRDMissing e \<longrightarrow>
        snd (ListHelmRepositories tp (Some cl) (Some cx) ns) =
          [ListCall HelmRepositoryList_v1beta2 (Some cx) (listOptions ns),
           ListCall HelmRepositoryList_v1 (Some cx) (listOptions ns)]) \<and>
     (listError (List_HelmRepository_v1beta2 k (Some cx) (listOptions ns)) = Some e \<and> isCRDMissing e \<and>
      listError (List_HelmRepository_v1 k (Some cx) (listOptions ns)) = Some errV \<and> isCRDMissing errV \<longrightarrow>
        fst (ListHelmRepositories tp (Some cl) (Some cx) ns) = Inr []) \<and>
     (listError (List_HelmRepository_v1beta2 k (Some cx) (listOptions ns)) = Some e \<and> isCRDMissing e \<and>
      listError (List_HelmRepository_v1 k (Some cx) (listOptions ns)) = Some errV \<and> \<not> isCRDMissing errV \<longrightarrow>
        fst (ListHelmRepositories tp (Some cl) (Some cx) ns) =
          Inl (Errorf (''failed to list HelmRepositories (tried v1beta2 and v1): v1beta2=''
                         @ Error e @ '', v1='' @ Error errV) (Some e))) \<and>
     (listError (List_HelmRepository_v1beta2 k (Some cx) (listOptions ns)) = Some e \<and> isCRDMissing e \<and>
      List_HelmRepository_v1 k (Some cx) (listOptions ns) = Returned hps \<longrightarrow>
        fst (ListHelmRepositories tp (Some cl) (Some cx) ns) = Inr (map (HelmRepository_Resource tp) hps)) \<and>
     (listError (List_HelmRepository_v1beta2 k (Some cx) (listOptions ns)) = Some e \<and> \<not> isCRDMissing e \<longrightarrow>
        ListHelmRepositories tp (Some cl) (Some cx) ns =
          (Inl (Errorf (''failed to list HelmRepositories (v1beta2): '' @ Error e) (Some e)),
           [ListCall HelmRepositoryList_v1beta2 (Some cx) (listOptions ns)])) \<and>
     (listError (List_HelmRepository_v1beta2 k (Some cx) (listOptions ns)) = None \<longrightarrow>
        snd (ListHelmRepositories tp (Some cl) (Some cx) ns) =
          [ListCall HelmRepositoryList_v1beta2 (Some cx) (listOptions ns)]) \<and>
     snd (ListGitRepositories tp (Some cl) ctx ns) = [ListCall GitRepositoryList_v1 ctx (listOptions ns)] \<and>
     snd (ListKustomizations tp (Some cl) ctx ns) = [ListCall KustomizationList_v1 ctx (listOptions ns)] \<and>
     snd (ListHelmReleases tp (Some cl) ctx ns) = [ListCall HelmReleaseList_v2beta1 ctx (listOptions ns)] \<and>
     (listError (List_GitRepository k ctx (listOptions ns)) = Some e \<longrightarrow>
        fst (ListGitRepositories tp (Some cl) ctx ns) =
          (if isCRDMissing e then Inr []
           else Inl (Errorf (''failed to list GitRepositories: '' @ Error e) (Some e)))) \<and>
     (listError (List_Kustomization k ctx (listOptions ns)) = Some e \<longrightarrow>
        fst (ListKustomizations tp (Some cl) ctx ns) =
          (if isCRDMissing e then Inr []
           else Inl (Errorf (''failed to list Kustomizations: '' @ Error e) (Some e)))) \<and>
     (listError (List_HelmRelease k ctx (listOptions ns)) = Some e \<longrightarrow>
        fst (ListHelmReleases tp (Some cl) ctx ns) =
          (if isCRDMissing e then Returned []
           else Failed (Errorf (''failed to list HelmReleases: '' @ Error e) (Some e))))"
  using assms
  by (intro conjI impI)
     (auto simp: ListHelmRepositories_def ListGitRepositories_def ListKustomizations_def
        ListHelmReleases_def safeList_Some Let_def split: CallResult.splits)

theorem fallback_once_for_HelmRepository_witness:
  "embeddedClient (clientOf (clusterWith (Failed notFoundError) (Failed noMatchError)))
     = Some (clusterWith (Failed notFoundError) (Failed noMatchError)) \<and>
   listError (List_HelmRepository_v1beta2 (clusterWith (Failed notFoundError) (Failed noMatchError))
                (Some Background) (listOptions '''')) = Some notFoundError \<and>
   isCRDMissing notFoundError \<and>
   listError (List_HelmRepository_v1 (clusterWith (Failed notFoundError) (Failed noMatchError))
                (Some Background) (listOptions '''')) = Some noMatchError \<and>
   isCRDMissing noMatchError \<and>
   ListHelmRepositories sampleTime
       (Some (clientOf (clusterWith (Failed notFoundError) (Failed noMatchError)))) (Some Background) ''''
     = (Inr [], [ListCall HelmRepositoryList_v1beta2 (Some Background) [],
                 ListCall HelmRepositoryList_v1 (Some Background) []]) \<and>
   \<not> isCRDMissing refusedError \<and>
   ListHelmRepositories sampleTime
       (Some (clientOf (clusterWith (Failed notFoundError) (Failed refusedError)))) (Some Background) ''''
     = (Inl (Errorf (''failed to list HelmRepositories (tried v1beta2 and v1): v1beta2=''
                      @ Error notFoundError @ '', v1='' @ Error refusedError) (Some notFoundError)),
        [ListCall HelmRepositoryList_v1beta2 (Some Background) [],
         ListCall HelmRepositoryList_v1 (Some Background) []]) \<and>
   ListHelmRepositories sampleTime
       (Some (clientOf (clusterWith (Failed refusedError) (Returned [])))) (Some Background) ''''
     = (Inl (Errorf (''failed to list HelmRepositories (v1beta2): '' @ Error refusedError)
               (Some refusedError)),
        [ListCall HelmRepositoryList_v1beta2 (Some Background) []]) \<and>
   ListKustomizations sampleTime
       (Some (clientOf (sampleCluster\<lparr>List_Kustomization := (\<lambda>ctx opts. Failed notFoundError)\<rparr>)))
       (Some Background) ''''
     = (Inr [], [ListCall KustomizationList_v1 (Some Background) []])"
proof -
  let ?A = "clusterWith (Failed notFoundError) (Failed noMatchError)"
  let ?B = "clusterWith (Failed notFoundError) (Failed refusedError)"
  let ?C = "clusterWith (Failed refusedError) (Returned [])"
  let ?D = "sampleCluster\<lparr>List_Kustomization := (\<lambda>ctx opts. Failed notFoundError)\<rparr>"
  have opts: "listOptions '''' = []"
    by (simp add: listOptions_def)
  have A: "embeddedClient (clientOf ?A) = Some ?A"
    and B: "embeddedClient (clientOf ?B) = Some ?B"
    and C: "embeddedClient (clientOf ?C) = Some ?C"
    and D: "embeddedClient (clientOf ?D) = Some ?D"
    by (simp_all add: clientOf_def)
  have pA: "listError (List_HelmRepository_v1beta2 ?A (Some Background) (listOptions '''')) = Some notFoundError"
    and fA: "listError (List_HelmRepository_v1 ?A (Some Background) (listOptions '''')) = Some noMatchError"
    and pB: "listError (List_HelmRepository_v1beta2 ?B (Some Background) (listOptions '''')) = Some notFoundError"
    and fB: "listError (List_HelmRepository_v1 ?B (Some Background) (listOptions '''')) = Some refusedError"
    and pC: "listError (List_HelmRepository_v1beta2 ?C (Some Background) (listOptions '''')) = Some refusedError"
    and pD: "listError (List_Kustomization ?D (Some Background) (listOptions '''')) = Some notFoundError"
    by (simp_all add: clusterWith_def)
  note tA = fallback_once_for_HelmRepository [OF A, where cx = Background and ns = "''''"
      and tp = sampleTime and e = notFoundError and errV = noMatchError and hps = "[]" and ctx = None]
  note tB = fallback_once_for_HelmRepository [OF B, where cx = Background and ns = "''''"
      and tp = sampleTime and e = notFoundError and errV = refusedError and hps = "[]" and ctx = None]
  note tC = fallback_once_for_HelmRepository [OF C, where cx = Background and ns = "''''"
      and tp = sampleTime and e = refusedError and errV = refusedError and hps = "[]" and ctx = None]
  note tD = fallback_once_for_HelmRepository [OF D, where cx = Background and ns = "''''"
      and tp = sampleTime and e = notFoundError and errV = refusedError and hps = "[]"
      and ctx = "Some Background"]
  have rA: "ListHelmRepositories sampleTime (Some (clientOf ?A)) (Some Background) ''''
     = (Inr [], [ListCall HelmRepositoryList_v1beta2 (Some Background) [],
                 ListCall HelmRepositoryList_v1 (Some Background) []])"
    using tA [THEN conjunct1] tA [THEN conjunct2, THEN conjunct1] pA fA
      isCRDMissing_notFoundError isCRDMissing_noMatchError
    by (simp add: prod_eq_iff opts)
  have rB: "ListHelmRepositories sampleTime (Some (clientOf ?B)) (Some Background) ''''
     = (Inl (Errorf (''failed to list HelmRepositories (tried v1beta2 and v1): v1beta2=''
                      @ Error notFoundError @ '', v1='' @ Error refusedError) (Some notFoundError)),
        [ListCall HelmRepositoryList_v1beta2 (Some Background) [],
         ListCall HelmRepositoryList_v1 (Some Background) []])"
    using tB [THEN conjunct1] tB [THEN conjunct2, THEN conjunct2, THEN conjunct1] pB fB
      isCRDMissing_notFoundError not_isCRDMissing_refusedError
    by (simp add: prod_eq_iff opts)
  have rC: "ListHelmRepositories sampleTime (Some (clientOf ?C)) (Some Background) ''''
     = (Inl (Errorf (''failed to list HelmRepositories (v1beta2): '' @ Error refusedError)
               (Some refusedError)),
        [ListCall HelmRepositoryList_v1beta2 (Some Background) []])"
    using tC [THEN conjunct2, THEN conjunct2, THEN conjunct2, THEN conjunct2, THEN conjunct1] pC
      not_isCRDMissing_refusedError
    by (simp add: opts)
  have rD: "ListKustomizations sampleTime (Some (clientOf ?D)) (Some Background) ''''
     = (Inr [], [ListCall KustomizationList_v1 (Some Background) []])"
    using tD [THEN conjunct2, THEN conjunct2, THEN conjunct2, THEN conjunct2, THEN conjunct2,
              THEN conjunct2, THEN conjunct2, THEN conjunct1]
          tD [THEN conjunct2, THEN conjunct2, THEN conjunct2, THEN conjunct2, THEN conjunct2,
              THEN conjunct2, THEN conjunct2, THEN conjunct2, THEN conjunct2, THEN conjunct2,
              THEN conjunct1]
          pD isCRDMissing_notFoundError
    by (simp add: prod_eq_iff opts)
  show ?thesis
    using A pA fA rA rB rC rD
      isCRDMissing_notFoundError isCRDMissing_noMatchError not_isCRDMissing_refusedError
    by (intro conjI)
qed

subsection \<open>Classifying a failed list call\<close>

lemma isCRDMissing_iff:
  "isCRDMissing e =
     (IsNotFound e \<or>
      strings_Contains (Error e) ''no matches for kind'' \<or>
      strings_Contains (Error e) ''could not find the requested resource'' \<or>
      strings_Contains (Error e) ''the server could not find the requested resource'')"
  by (cases "Error e = []")
     (simp_all add: isCRDMissing_def IgnoreNotFound_def Let_def strings_Contains_def)

text \<open>
  C3 (as amended). The error of a list call is classified as "kind not installed"
  exactly when the not-found predicate matches it or its text contains one of "no
  matches for kind", "could not find the requested resource", "the server could not
  find the requested resource". The GitRepository, Kustomization and HelmRelease
  fetchers, and the HelmRepository fetcher at its fallback (v1) call, recover an
  error so classified as the empty sequence and return every other error wrapped with
  the operation. At the HelmRepository fetcher's first (v1beta2) call an error that is
  not so classified is returned wrapped; one that is leads to the fallback call.
\<close>

theorem kind_not_installed_classification:
  assumes "embeddedClient cl = Some k"
  shows
    "(isCRDMissing e =
        (IsNotFound e \<or>
         strings_Contains (Error e) ''no matches for kind'' \<or>
         strings_Contains (Error e) ''could not find the requested resource'' \<or>
         strings_Contains (Error e) ''the server could not find the requested resource'')) \<and>
     (listError (List_GitRepository k ctx (listOptions ns)) = Some e \<longrightarrow>
        fst (ListGitRepositories tp (Some cl) ctx ns) =
          (if isCRDMissing e then Inr []
           else Inl (Errorf (''failed to list GitRepositories: '' @ Error e) (Some e)))) \<and>
     (listError (List_Kustomization k ctx (listOptions ns)) = Some e \<longrightarrow>
        fst (ListKustomizations tp (Some cl) ctx ns) =
          (if isCRDMissing e then Inr []
           else Inl (Errorf (''failed to list Kustomizations: '' @ Error e) (Some e)))) \<and>
     (listError (List_HelmRelease k ctx (listOptions ns)) = Some e \<longrightarrow>
        fst (ListHelmReleases tp (Some cl) ctx ns) =
          (if isCRDMissing e then Returned []
           else Failed (Errorf (''failed to list HelmReleases: '' @ Error e) (Some e)))) \<and>
     (listError (List_HelmRepository_v1beta2 k (Some cx) (listOptions ns)) = Some e \<and> \<not> isCRDMissing e \<longrightarrow>
        fst (ListHelmRepositories tp (Some cl) (Some cx) ns) =
          Inl (Errorf (''failed to list HelmRepositories (v1beta2): '' @ Error e) (Some e))) \<and>
     (listError (List_HelmRepository_v1beta2 k (Some cx) (listOptions ns)) = Some e \<and> isCRDMissing e \<and>
      listError (List_HelmRepository_v1 k (Some cx) (listOptions ns)) = Some errV \<longrightarrow>
        fst (ListHelmRepositories tp (Some cl) (Some cx) ns) =
          (if isCRDMissing errV then Inr []
           else Inl (Errorf (''failed to list HelmRepositories (tried v1beta2 and v1): v1beta2=''
                              @ Error e @ '', v1='' @ Error errV) (Some e))))"
  using assms
  by (intro conjI impI isCRDMissing_iff)
     (auto simp: ListHelmRepositories_def ListGitRepositories_def ListKustomizations_def
        ListHelmReleases_def safeList_Some Let_def split: CallResult.splits)

theorem kind_not_installed_classification_witness:
  "embeddedClient (clientOf (sampleCluster\<lparr>List_GitRepository := (\<lambda>ctx opts. Failed noMatchError)\<rparr>))
     = Some (sampleCluster\<lparr>List_GitRepository := (\<lambda>ctx opts. Failed noMatchError)\<rparr>) \<and>
   listError (List_GitRepository (sampleCluster\<lparr>List_GitRepository := (\<lambda>ctx opts. Failed noMatchError)\<rparr>)
                None (listOptions '''')) = Some noMatchError \<and>
   isCRDMissing noMatchError \<and>
   fst (ListGitRepositories sampleTime
          (Some (clientOf (sampleCluster\<lparr>List_GitRepository := (\<lambda>ctx opts. Failed noMatchError)\<rparr>)))
          None '''') = Inr [] \<and>
   embeddedClient (clientOf (sampleCluster\<lparr>List_HelmRelease := (\<lambda>ctx opts. Panicked ''boom'')\<rparr>))
     = Some (sampleCluster\<lparr>List_HelmRelease := (\<lambda>ctx opts. Panicked ''boom'')\<rparr>) \<and>
   listError (List_HelmRelease (sampleCluster\<lparr>List_HelmRelease := (\<lambda>ctx opts. Panicked ''boom'')\<rparr>)
                None (listOptions '''')) = Some (recoveredPanic ''boom'') \<and>
   \<not> isCRDMissing (recoveredPanic ''boom'') \<and>
   fst (ListHelmReleases sampleTime
          (Some (clientOf (sampleCluster\<lparr>List_HelmRelease := (\<lambda>ctx opts. Panicked ''boom'')\<rparr>)))
          None '''')
     = Failed (Errorf ''failed to list HelmReleases: panic in kubernetes client list operation: boom''
                 (Some (recoveredPanic ''boom'')))"
proof -
  let ?G = "sampleCluster\<lparr>List_GitRepository := (\<lambda>ctx opts. Failed noMatchError)\<rparr>"
  let ?H = "sampleCluster\<lparr>List_HelmRelease := (\<lambda>ctx opts. Panicked ''boom'')\<rparr>"
  have G: "embeddedClient (clientOf ?G) = Some ?G"
    and H: "embeddedClient (clientOf ?H) = Some ?H"
    by (simp_all add: clientOf_def)
  have eG: "listError (List_GitRepository ?G None (listOptions '''')) = Some noMatchError"
    and eH: "listError (List_HelmRelease ?H None (listOptions '''')) = Some (recoveredPanic ''boom'')"
    by simp_all
  have boom: "\<not> isCRDMissing (recoveredPanic ''boom'')"
    by (simp add: isCRDMissing_def IgnoreNotFound_def recoveredPanic_def strings_Contains_def
        sublist_code prefix_code)
  note tG = kind_not_installed_classification [OF G, where ctx = None and ns = "''''"
      and tp = sampleTime and e = noMatchError and errV = noMatchError and cx = Background]
  note tH = kind_not_installed_classification [OF H, where ctx = None and ns = "''''"
      and tp = sampleTime and e = "recoveredPanic ''boom''" and errV = noMatchError and cx = Background]
  have rG: "fst (ListGitRepositories sampleTime (Some (clientOf ?G)) None '''') = Inr []"
    using tG [THEN conjunct2, THEN conjunct1] eG isCRDMissing_noMatchError by simp
  have rH: "fst (ListHelmReleases sampleTime (Some (clientOf ?H)) None '''')
     = Failed (Errorf ''failed to list HelmReleases: panic in kubernetes client list operation: boom''
                 (Some (recoveredPanic ''boom'')))"
    using tH [THEN conjunct2, THEN conjunct2, THEN conjunct2, THEN conjunct1] eH boom
    by (simp add: recoveredPanic_def)
  show ?thesis
    using G eG isCRDMissing_noMatchError rG H eH boom rH by (intro conjI)
qed

text \<open>
  The claim as stated fails at the HelmRepository fetcher's first call: an error that is
  classified as "kind not installed" there is not recovered as the empty sequence.
  With v1 served the fetcher returns the v1 objects, and with v1 failing for another
  reason it returns an error that wraps the classified one.
\<close>

theorem kind_not_installed_counterexample:
  "listError (List_HelmRepository_v1beta2 sampleCluster (Some Background) (listOptions ''''))
     = Some notFoundError \<and>
   isCRDMissing notFoundError \<and>
   fst (ListHelmRepositories sampleTime (Some sampleClient) (Some Background) '''')
     = Inr [HelmRepository_Resource sampleTime
              (sampleHelmRepository [sampleCondition ''Ready'' ''True'' ''Succeeded''])] \<and>
   fst (ListHelmRepositories sampleTime
          (Some (clientOf (clusterWith (Failed notFoundError) (Failed refusedError))))
          (Some Background) '''')
     = Inl (Errorf (''failed to list HelmRepositories (tried v1beta2 and v1): v1beta2=''
                     @ Error notFoundError @ '', v1='' @ Error refusedError)
              (Some notFoundError))"
  by (simp add: ListHelmRepositories_def safeList_Some sampleClient_def clientOf_def Let_def
      sampleCluster_def clusterWith_def isCRDMissing_notFoundError not_isCRDMissing_refusedError)

subsection \<open>Nil client handles and nil contexts\<close>

text \<open>
  ListHelmRepositories checks its receiver, the embedded client and the context before
  anything else (its "safety checks"): each of them, when nil, gives an immediate
  error that names it, and no call is issued.
\<close>

lemma ListHelmRepositories_nil_guards:
  "ListHelmRepositories tp None ctx ns = (Inl (Errorf ''kubernetes client is nil'' None), []) \<and>
   ListHelmRepositories tp (Some \<lparr>embeddedClient = None\<rparr>) ctx ns
     = (Inl (Errorf ''embedded kubernetes client is nil'' None), []) \<and>
   ListHelmRepositories tp (Some \<lparr>embeddedClient = Some k\<rparr>) None ns
     = (Inl (Errorf ''context is nil'' None), [])"
  by (simp add: ListHelmRepositories_def)

text \<open>
  C9. The claim asks these checks of every fetch and mutation operation; the other six
  operations do not make them. On a nil client handle SuspendResource, ResumeResource
  and ReconcileResource panic with the nil dereference, and ListGitRepositories,
  ListKustomizations and ListHelmReleases return the nil dereference that \<open>safeList\<close>
  recovered, wrapped as a list failure. With a nil context on a connected client
  ListGitRepositories issues its list call, and SuspendResource its get and its update,
  handing the nil context on.
\<close>

theorem nil_handle_and_nil_context_not_checked:
  "SuspendResource None (Some Background) ResourceTypeGitRepository ''podinfo'' ''flux-system''
     = (Panicked nilDereference, []) \<and>
   ResumeResource None (Some Background) ResourceTypeKustomization ''apps'' ''flux-system''
     = (Panicked nilDereference, []) \<and>
   ReconcileResource sampleTime None (Some Background) ResourceTypeHelmRelease ''web'' ''flux-system''
     = (Panicked nilDereference, []) \<and>
   ListGitRepositories sampleTime None (Some Background) ''''
     = (Inl (Errorf (''failed to list GitRepositories: panic in kubernetes client list operation: ''
                      @ nilDereference)
               (Some (recoveredPanic nilDereference))), []) \<and>
   ListKustomizations sampleTime None (Some Background) ''''
     = (Inl (Errorf (''failed to list Kustomizations: panic in kubernetes client list operation: ''
                      @ nilDereference)
               (Some (recoveredPanic nilDereference))), []) \<and>
   ListHelmReleases sampleTime None (Some Background) ''''
     = (Failed (Errorf (''failed to list HelmReleases: panic in kubernetes client list operation: ''
                         @ nilDereference)
                  (Some (recoveredPanic nilDereference))), []) \<and>
   ListGitRepositories sampleTime (Some sampleClient) None ''''
     = (Inr [GitRepository_Resource sampleTime
               (sampleGitRepository [sampleCondition ''Ready'' ''True'' ''Succeeded''])],
        [ListCall GitRepositoryList_v1 None []]) \<and>
   SuspendResource (Some sampleClient) None ResourceTypeGitRepository ''podinfo'' ''flux-system''
     = (Returned (),
        [GetCall GitRepository_v1 None \<lparr>nn_Name = ''podinfo'', nn_Namespace = ''flux-system''\<rparr>,
         UpdateCall None (GitRepositoryObj
           ((sampleGitRepository [sampleCondition ''Ready'' ''True'' ''Succeeded''])
              \<lparr>gr_Suspend := True\<rparr>))])"
proof -
  have nil: "safeList None target list ctx opts = (Inl (recoveredPanic nilDereference), [])"
    for target ctx opts and list :: "K8sClient \<Rightarrow> Context option \<Rightarrow> ListOption list \<Rightarrow> 'x CallResult"
    by (simp add: safeList_def)
  have msg: "Error (recoveredPanic nilDereference)
      = ''panic in kubernetes client list operation: '' @ nilDereference"
    by (simp add: recoveredPanic_def)
  have mutations:
    "SuspendResource None (Some Background) ResourceTypeGitRepository ''podinfo'' ''flux-system''
       = (Panicked nilDereference, [])"
    "ResumeResource None (Some Background) ResourceTypeKustomization ''apps'' ''flux-system''
       = (Panicked nilDereference, [])"
    "ReconcileResource sampleTime None (Some Background) ResourceTypeHelmRelease ''web'' ''flux-system''
       = (Panicked nilDereference, [])"
    by (simp_all add: SuspendResource_def ResumeResource_def updateSuspendStatus_def
        ReconcileResource_def newObject_def c_Get_def
        ResourceTypeGitRepository_def ResourceTypeHelmRepository_def
        ResourceTypeKustomization_def ResourceTypeHelmRelease_def)
  have fetchers:
    "ListGitRepositories sampleTime None (Some Background) ''''
       = (Inl (Errorf (''failed to list GitRepositories: panic in kubernetes client list operation: ''
                        @ nilDereference)
                 (Some (recoveredPanic nilDereference))), [])"
    "ListKustomizations sampleTime None (Some Background) ''''
       = (Inl (Errorf (''failed to list Kustomizations: panic in kubernetes client list operation: ''
                        @ nilDereference)
                 (Some (recoveredPanic nilDereference))), [])"
    "ListHelmReleases sampleTime None (Some Background) ''''
       = (Failed (Errorf (''failed to list HelmReleases: panic in kubernetes client list operation: ''
                           @ nilDereference)
                    (Some (recoveredPanic nilDereference))), [])"
    by (simp_all add: ListGitRepositories_def ListKustomizations_def ListHelmReleases_def
        nil msg not_isCRDMissing_nilDereference del: Error.simps)
  have nilctx:
    "ListGitRepositories sampleTime (Some sampleClient) None ''''
       = (Inr [GitRepository_Resource sampleTime
                 (sampleGitRepository [sampleCondition ''Ready'' ''True'' ''Succeeded''])],
          [ListCall GitRepositoryList_v1 None []])"
    "SuspendResource (Some sampleClient) None ResourceTypeGitRepository ''podinfo'' ''flux-system''
       = (Returned (),
          [GetCall GitRepository_v1 None \<lparr>nn_Name = ''podinfo'', nn_Namespace = ''flux-system''\<rparr>,
           UpdateCall None (GitRepositoryObj
             ((sampleGitRepository [sampleCondition ''Ready'' ''True'' ''Succeeded''])
                \<lparr>gr_Suspend := True\<rparr>))])"
    by (simp_all add: ListGitRepositories_def safeList_Some listOptions_empty Let_def
        SuspendResource_def updateSuspendStatus_def newObject_def c_Get_def c_Update_def
        setSuspend_def sampleClient_def sampleCluster_def ResourceTypeGitRepository_def)
  show ?thesis
    using mutations fetchers nilctx by (intro conjI)
qed

section \<open>Properties of the mutation operations\<close>

subsection \<open>Suspend and resume\<close>

text \<open>
  C4. For each of the four kinds, and whatever the name, the namespace and the
  requested flag: when the get returns an object, the operation issues that one get and
  then one update, and the object it writes is the fetched one with its suspend flag
  set to the requested value and every other field as fetched; the outcome is success
  when the update returns, and the update's error wrapped as "failed to update" when
  it fails. When the get fails, the outcome is its error wrapped as "failed to get"
  and the get is the only call. No call is repeated. SuspendResource and
  ResumeResource are this operation with the flag true and false. (A resource type
  outside the four kinds is refused before any call.)
\<close>

theorem updateSuspendStatus_get_then_update:
  assumes "embeddedClient cl = Some k"
  shows
    "((Get_GitRepository k ctx \<lparr>nn_Name = name, nn_Namespace = namespace\<rparr> = Returned repo \<and>
       Update_Object k ctx (GitRepositoryObj (repo\<lparr>gr_Suspend := suspend\<rparr>)) = Returned ()) \<longrightarrow>
        updateSuspendStatus (Some cl) ctx ResourceTypeGitRepository name namespace suspend =
          (Returned (),
           [GetCall GitRepository_v1 ctx \<lparr>nn_Name = name, nn_Namespace = namespace\<rparr>,
            UpdateCall ctx (GitRepositoryObj (repo\<lparr>gr_Suspend := suspend\<rparr>))])) \<and>
     ((Get_GitRepository k ctx \<lparr>nn_Name = name, nn_Namespace = namespace\<rparr> = Returned repo \<and>
       Update_Object k ctx (GitRepositoryObj (repo\<lparr>gr_Suspend := suspend\<rparr>)) = Failed err) \<longrightarrow>
        updateSuspendStatus (Some cl) ctx ResourceTypeGitRepository name namespace suspend =
          (Failed (Errorf (''failed to update '' @ ResourceTypeGitRepository @ ''/'' @ name @ '': '' @ Error err) (Some err)),
           [GetCall GitRepository_v1 ctx \<lparr>nn_Name = name, nn_Namespace = namespace\<rparr>,
            UpdateCall ctx (GitRepositoryObj (repo\<lparr>gr_Suspend := suspend\<rparr>))])) \<and>
     (Get_GitRepository k ctx \<lparr>nn_Name = name, nn_Namespace = namespace\<rparr> = Failed err \<longrightarrow>
        updateSuspendStatus (Some cl) ctx ResourceTypeGitRepository name namespace suspend =
          (Failed (Errorf (''failed to get '' @ ResourceTypeGitRepository @ ''/'' @ name @ '': '' @ Error err) (Some err)),
           [GetCall GitRepository_v1 ctx \<lparr>nn_Name = name, nn_Namespace = namespace\<rparr>])) \<and>
     ((Get_HelmRepository k ctx \<lparr>nn_Name = name, nn_Namespace = namespace\<rparr> = Returned hrepo \<and>
       Update_Object k ctx (HelmRepositoryObj (hrepo\<lparr>hp_Suspend := suspend\<rparr>)) = Returned ()) \<longrightarrow>
        updateSuspendStatus (Some cl) ctx ResourceTypeHelmRepository name namespace suspend =
          (Returned (),
           [GetCall HelmRepository_v1beta2 ctx \<lparr>nn_Name = name, nn_Namespace = namespace\<rparr>,
            UpdateCall ctx (HelmRepositoryObj (hrepo\<lparr>hp_Suspend := suspend\<rparr>))])) \<and>
     ((Get_HelmRepository k ctx \<lparr>nn_Name = name, nn_Namespace = namespace\<rparr> = Returned hrepo \<and>
       Update_Object k ctx (HelmRepositoryObj (hrepo\<lparr>hp_Suspend := suspend\<rparr>)) = Failed err) \<longrightarrow>
        updateSuspendStatus (Some cl) ctx ResourceTypeHelmRepository name namespace suspend =
          (Failed (Errorf (''failed to update '' @ ResourceTypeHelmRepository @ ''/'' @ name @ '': '' @ Error err) (Some err)),
           [GetCall HelmRepository_v1beta2 ctx \<lparr>nn_Name = name, nn_Namespace = namespace\<rparr>,
            UpdateCall ctx (HelmRepositoryObj (hrepo\<lparr>hp_Suspend := suspend\<rparr>))])) \<and>
     (Get_HelmRepository k ctx \<lparr>nn_Name = name, nn_Namespace = namespace\<rparr> = Failed err \<longrightarrow>
        updateSuspendStatus (Some cl) ctx ResourceTypeHelmRepository name namespace suspend =
          (Failed (Errorf (''failed to get '' @ ResourceTypeHelmRepository @ ''/'' @ name @ '': '' @ Error err) (Some err)),
           [GetCall HelmRepository_v1beta2 ctx \<lparr>nn_Name = name, nn_Namespace = namespace\<rparr>])) \<and>
     ((Get_Kustomization k ctx \<lparr>nn_Name = name, nn_Namespace = namespace\<rparr> = Returned ks \<and>
       Update_Object k ctx (KustomizationObj (ks\<lparr>ks_Suspend := suspend\<rparr>)) = Returned ()) \<longrightarrow>
        updateSuspendStatus (Some cl) ctx ResourceTypeKustomization name namespace suspend =
          (Returned (),
           [GetCall Kustomization_v1 ctx \<lparr>nn_Name = name, nn_Namespace = namespace\<rparr>,
            UpdateCall ctx (KustomizationObj (ks\<lparr>ks_Suspend := suspend\<rparr>))])) \<and>
     ((Get_Kustomization k ctx \<lparr>nn_Name = name, nn_Namespace = namespace\<rparr> = Returned ks \<and>
       Update_Object k ctx (KustomizationObj (ks\<lparr>ks_Suspend := suspend\<rparr>)) = Failed err) \<longrightarrow>
        updateSuspendStatus (Some cl) ctx ResourceTypeKustomization name namespace suspend =
          (Failed (Errorf (''failed to update '' @ ResourceTypeKustomization @ ''/'' @ name @ '': '' @ Error err) (Some err)),
           [GetCall Kustomization_v1 ctx \<lparr>nn_Name = name, nn_Namespace = namespace\<rparr>,
            UpdateCall ctx (KustomizationObj (ks\<lparr>ks_Suspend := suspend\<rparr>))])) \<and>
     (Get_Kustomization k ctx \<lparr>nn_Name = name, nn_Namespace = namespace\<rparr> = Failed err \<longrightarrow>
        updateSuspendStatus (Some cl) ctx ResourceTypeKustomization name namespace suspend =
          (Failed (Errorf (''failed to get '' @ ResourceTypeKustomization @ ''/'' @ name @ '': '' @ Error err) (Some err)),
           [GetCall Kustomization_v1 ctx \<lparr>nn_Name = name, nn_Namespace = namespace\<rparr>])) \<and>
     ((Get_HelmRelease k ctx \<lparr>nn_Name = name, nn_Namespace = namespace\<rparr> = Returned hr \<and>
       Update_Object k ctx (HelmReleaseObj (hr\<lparr>hl_Suspend := suspend\<rparr>)) = Returned ()) \<longrightarrow>
        updateSuspendStatus (Some cl) ctx ResourceTypeHelmRelease name namespace suspend =
          (Returned (),
           [GetCall HelmRelease_v2beta1 ctx \<lparr>nn_Name = name, nn_Namespace = namespace\<rparr>,
            UpdateCall ctx (HelmReleaseObj (hr\<lparr>hl_Suspend := suspend\<rparr>))])) \<and>
     ((Get_HelmRelease k ctx \<lparr>nn_Name = name, nn_Namespace = namespace\<rparr> = Returned hr \<and>
       Update_Object k ctx (HelmReleaseObj (hr\<lparr>hl_Suspend := suspend\<rparr>)) = Failed err) \<longrightarrow>
        updateSuspendStatus (Some cl) ctx ResourceTypeHelmRelease name namespace suspend =
          (Failed (Errorf (''failed to update '' @ ResourceTypeHelmRelease @ ''/'' @ name @ '': '' @ Error err) (Some err)),
           [GetCall HelmRelease_v2beta1 ctx \<lparr>nn_Name = name, nn_Namespace = namespace\<rparr>,
            UpdateCall ctx (HelmReleaseObj (hr\<lparr>hl_Suspend := suspend\<rparr>))])) \<and>
     (Get_HelmRelease k ctx \<lparr>nn_Name = name, nn_Namespace = namespace\<rparr> = Failed err \<longrightarrow>
        updateSuspendStatus (Some cl) ctx ResourceTypeHelmRelease name namespace suspend =
          (Failed (Errorf (''failed to get '' @ ResourceTypeHelmRelease @ ''/'' @ name @ '': '' @ Error err) (Some err)),
           [GetCall HelmRelease_v2beta1 ctx \<lparr>nn_Name = name, nn_Namespace = namespace\<rparr>])) \<and>
     SuspendResource c ctx resourceType name namespace
       = updateSuspendStatus c ctx resourceType name namespace True \<and>
     ResumeResource c ctx resourceType name namespace
       = updateSuspendStatus c ctx resourceType name namespace False \<and>
     (newObject resourceType = None \<longrightarrow>
        updateSuspendStatus c ctx resourceType name namespace suspend =
          (Failed (Errorf (''unsupported resource type: '' @ resourceType) None), []))"
  using assms
  by (intro conjI)
     (simp_all add: updateSuspendStatus_def SuspendResource_def ResumeResource_def newObject_def
        c_Get_def c_Update_def setSuspend_def Let_def ResourceTypeGitRepository_def
        ResourceTypeHelmRepository_def ResourceTypeKustomization_def ResourceTypeHelmRelease_def)

theorem updateSuspendStatus_get_then_update_witness:
  "embeddedClient sampleClient = Some sampleCluster \<and>
   Get_GitRepository sampleCluster (Some Background) \<lparr>nn_Name = ''podinfo'', nn_Namespace = ''flux-system''\<rparr> = Returned (sampleGitRepository [sampleCondition ''Ready'' ''True'' ''Succeeded'']) \<and>
   Update_Object sampleCluster (Some Background) (GitRepositoryObj ((sampleGitRepository [sampleCondition ''Ready'' ''True'' ''Succeeded''])\<lparr>gr_Suspend := True\<rparr>)) = Returned () \<and>
   updateSuspendStatus (Some sampleClient) (Some Background) ResourceTypeGitRepository ''podinfo'' ''flux-system'' True
     = (Returned (),
        [GetCall GitRepository_v1 (Some Background) \<lparr>nn_Name = ''podinfo'', nn_Namespace = ''flux-system''\<rparr>,
         UpdateCall (Some Background) (GitRepositoryObj ((sampleGitRepository [sampleCondition ''Ready'' ''True'' ''Succeeded''])\<lparr>gr_Suspend := True\<rparr>))]) \<and>
   Get_Kustomization (sampleCluster\<lparr>Update_Object := (\<lambda>ctx obj. Failed conflictError)\<rparr>) (Some Background) \<lparr>nn_Name = ''apps'', nn_Namespace = ''flux-system''\<rparr> = Returned (sampleKustomization [sampleCondition ''Ready'' ''True'' ''ReconciliationSucceeded'']) \<and>
   Update_Object (sampleCluster\<lparr>Update_Object := (\<lambda>ctx obj. Failed conflictError)\<rparr>) (Some Background) (KustomizationObj ((sampleKustomization [sampleCondition ''Ready'' ''True'' ''ReconciliationSucceeded''])\<lparr>ks_Suspend := False\<rparr>)) = Failed conflictError \<and>
   updateSuspendStatus (Some (clientOf (sampleCluster\<lparr>Update_Object := (\<lambda>ctx obj. Failed conflictError)\<rparr>))) (Some Background) ResourceTypeKustomization ''apps'' ''flux-system'' False
     = (Failed (Errorf (''failed to update '' @ ResourceTypeKustomization @ ''/'' @ ''apps'' @ '': ''
                        @ Error conflictError) (Some conflictError)),
        [GetCall Kustomization_v1 (Some Background) \<lparr>nn_Name = ''apps'', nn_Namespace = ''flux-system''\<rparr>,
         UpdateCall (Some Background) (KustomizationObj ((sampleKustomization [sampleCondition ''Ready'' ''True'' ''ReconciliationSucceeded''])\<lparr>ks_Suspend := False\<rparr>))]) \<and>
   Get_HelmRelease (sampleCluster\<lparr>Get_HelmRelease := (\<lambda>ctx key. Failed notFoundError)\<rparr>) (Some Background) \<lparr>nn_Name = ''web'', nn_Namespace = ''flux-system''\<rparr> = Failed notFoundError \<and>
   updateSuspendStatus (Some (clientOf (sampleCluster\<lparr>Get_HelmRelease := (\<lambda>ctx key. Failed notFoundError)\<rparr>))) (Some Background) ResourceTypeHelmRelease ''web'' ''flux-system'' True
     = (Failed (Errorf (''failed to get '' @ ResourceTypeHelmRelease @ ''/'' @ ''web'' @ '': ''
                        @ Error notFoundError) (Some notFoundError)),
        [GetCall HelmRelease_v2beta1 (Some Background) \<lparr>nn_Name = ''web'', nn_Namespace = ''flux-system''\<rparr>])"
proof -
  have c1: "embeddedClient sampleClient = Some sampleCluster"
    by (simp add: sampleClient_def)
  have c2: "embeddedClient (clientOf (sampleCluster\<lparr>Update_Object := (\<lambda>ctx obj. Failed conflictError)\<rparr>)) = Some (sampleCluster\<lparr>Update_Object := (\<lambda>ctx obj. Failed conflictError)\<rparr>)"
    and c3: "embeddedClient (clientOf (sampleCluster\<lparr>Get_HelmRelease := (\<lambda>ctx key. Failed notFoundError)\<rparr>)) = Some (sampleCluster\<lparr>Get_HelmRelease := (\<lambda>ctx key. Failed notFoundError)\<rparr>)"
    by (simp_all add: clientOf_def)
  have s1: "Get_GitRepository sampleCluster (Some Background) \<lparr>nn_Name = ''podinfo'', nn_Namespace = ''flux-system''\<rparr> = Returned (sampleGitRepository [sampleCondition ''Ready'' ''True'' ''Succeeded''])"
    and s2: "Update_Object sampleCluster (Some Background) (GitRepositoryObj ((sampleGitRepository [sampleCondition ''Ready'' ''True'' ''Succeeded''])\<lparr>gr_Suspend := True\<rparr>)) = Returned ()"
    and s4: "Get_Kustomization (sampleCluster\<lparr>Update_Object := (\<lambda>ctx obj. Failed conflictError)\<rparr>) (Some Background) \<lparr>nn_Name = ''apps'', nn_Namespace = ''flux-system''\<rparr> = Returned (sampleKustomization [sampleCondition ''Ready'' ''True'' ''ReconciliationSucceeded''])"
    and s5: "Update_Object (sampleCluster\<lparr>Update_Object := (\<lambda>ctx obj. Failed conflictError)\<rparr>) (Some Background) (KustomizationObj ((sampleKustomization [sampleCondition ''Ready'' ''True'' ''ReconciliationSucceeded''])\<lparr>ks_Suspend := False\<rparr>)) = Failed conflictError"
    and s7: "Get_HelmRelease (sampleCluster\<lparr>Get_HelmRelease := (\<lambda>ctx key. Failed notFoundError)\<rparr>) (Some Background) \<lparr>nn_Name = ''web'', nn_Namespace = ''flux-system''\<rparr> = Failed notFoundError"
    by (simp_all add: sampleCluster_def)
  note t1 = updateSuspendStatus_get_then_update [OF c1, where ctx = "Some Background"
      and name = "''podinfo''" and namespace = "''flux-system''" and suspend = True
      and repo = "sampleGitRepository [sampleCondition ''Ready'' ''True'' ''Succeeded'']"]
  note t2 = updateSuspendStatus_get_then_update [OF c2, where ctx = "Some Background"
      and name = "''apps''" and namespace = "''flux-system''" and suspend = False
      and ks = "sampleKustomization [sampleCondition ''Ready'' ''True'' ''ReconciliationSucceeded'']" and err = conflictError]
  note t3 = updateSuspendStatus_get_then_update [OF c3, where ctx = "Some Background"
      and name = "''web''" and namespace = "''flux-system''" and suspend = True
      and err = notFoundError]
  have s3: "updateSuspendStatus (Some sampleClient) (Some Background) ResourceTypeGitRepository ''podinfo'' ''flux-system'' True
     = (Returned (),
        [GetCall GitRepository_v1 (Some Background) \<lparr>nn_Name = ''podinfo'', nn_Namespace = ''flux-system''\<rparr>,
         UpdateCall (Some Background) (GitRepositoryObj ((sampleGitRepository [sampleCondition ''Ready'' ''True'' ''Succeeded''])\<lparr>gr_Suspend := True\<rparr>))])"
    using t1 [THEN conjunct1] s1 s2 by simp
  have s6: "updateSuspendStatus (Some (clientOf (sampleCluster\<lparr>Update_Object := (\<lambda>ctx obj. Failed conflictError)\<rparr>))) (Some Background) ResourceTypeKustomization ''apps'' ''flux-system'' False
     = (Failed (Errorf (''failed to update '' @ ResourceTypeKustomization @ ''/'' @ ''apps'' @ '': ''
                        @ Error conflictError) (Some conflictError)),
        [GetCall Kustomization_v1 (Some Background) \<lparr>nn_Name = ''apps'', nn_Namespace = ''flux-system''\<rparr>,
         UpdateCall (Some Background) (KustomizationObj ((sampleKustomization [sampleCondition ''Ready'' ''True'' ''ReconciliationSucceeded''])\<lparr>ks_Suspend := False\<rparr>))])"
    using t2 [THEN conjunct2, THEN conjunct2, THEN conjunct2, THEN conjunct2, THEN conjunct2, THEN conjunct2, THEN conjunct2, THEN conjunct1] s4 s5 by simp
  have s8: "updateSuspendStatus (Some (clientOf (sampleCluster\<lparr>Get_HelmRelease := (\<lambda>ctx key. Failed notFoundError)\<rparr>))) (Some Background) ResourceTypeHelmRelease ''web'' ''flux-system'' True
     = (Failed (Errorf (''failed to get '' @ ResourceTypeHelmRelease @ ''/'' @ ''web'' @ '': ''
                        @ Error notFoundError) (Some notFoundError)),
        [GetCall HelmRelease_v2beta1 (Some Background) \<lparr>nn_Name = ''web'', nn_Namespace = ''flux-system''\<rparr>])"
    using t3 [THEN conjunct2, THEN conjunct2, THEN conjunct2, THEN conjunct2, THEN conjunct2, THEN conjunct2, THEN conjunct2, THEN conjunct2, THEN conjunct2, THEN conjunct2, THEN conjunct2, THEN conjunct1] s7 by simp
  show ?thesis
    using c1 s1 s2 s3 s4 s5 s6 s7 s8 by (intro conjI)
qed

subsection \<open>Requesting a reconciliation\<close>

lemma addReconcileAnnotation_keeps:
  "\<exists>m. GetAnnotations (addReconcileAnnotation tp obj) = Some m \<and>
     m ''reconcile.fluxcd.io/requestedAt'' = Some (time_Format tp (Time_UTC (time_Now tp)) RFC3339) \<and>
     (\<forall>a. a \<noteq> ''reconcile.fluxcd.io/requestedAt'' \<longrightarrow>
        m a = (case GetAnnotations obj of None \<Rightarrow> None | Some m0 \<Rightarrow> m0 a))"
  by (cases obj)
     (auto simp: addReconcileAnnotation_def reconcileAnnotation_def Let_def split: option.splits)

text \<open>
  C5. For each of the four kinds, ReconcileResource gets the object, sets the
  annotation "reconcile.fluxcd.io/requestedAt" to the current time, moved to UTC and
  formatted with the RFC3339 layout, keeps every other annotation (a nil annotation
  map counts as empty) and every other field, and writes the object back: one get,
  then one update. A failing get gives its error wrapped as "failed to get" and no
  update; a failing update gives its error wrapped as "failed to update"; no call is
  repeated. The clock and the formatter of package \<open>time\<close> are parameters here.
\<close>

theorem ReconcileResource_sets_requestedAt:
  assumes "embeddedClient cl = Some k"
  shows
    "((Get_GitRepository k ctx \<lparr>nn_Name = name, nn_Namespace = namespace\<rparr> = Returned repo \<and>
       Update_Object k ctx (addReconcileAnnotation tp (GitRepositoryObj repo)) = Returned ()) \<longrightarrow>
        ReconcileResource tp (Some cl) ctx ResourceTypeGitRepository name namespace =
          (Returned (),
           [GetCall GitRepository_v1 ctx \<lparr>nn_Name = name, nn_Namespace = namespace\<rparr>,
            UpdateCall ctx (addReconcileAnnotation tp (GitRepositoryObj repo))])) \<and>
     ((Get_GitRepository k ctx \<lparr>nn_Name = name, nn_Namespace = namespace\<rparr> = Returned repo \<and>
       Update_Object k ctx (addReconcileAnnotation tp (GitRepositoryObj repo)) = Failed err) \<longrightarrow>
        ReconcileResource tp (Some cl) ctx ResourceTypeGitRepository name namespace =
          (Failed (Errorf (''failed to update '' @ ResourceTypeGitRepository @ ''/'' @ name @ '': '' @ Error err) (Some err)),
           [GetCall GitRepository_v1 ctx \<lparr>nn_Name = name, nn_Namespace = namespace\<rparr>,
            UpdateCall ctx (addReconcileAnnotation tp (GitRepositoryObj repo))])) \<and>
     (Get_GitRepository k ctx \<lparr>nn_Name = name, nn_Namespace = namespace\<rparr> = Failed err \<longrightarrow>
        ReconcileResource tp (Some cl) ctx ResourceTypeGitRepository name namespace =
          (Failed (Errorf (''failed to get '' @ ResourceTypeGitRepository @ ''/'' @ name @ '': '' @ Error err) (Some err)),
           [GetCall GitRepository_v1 ctx \<lparr>nn_Name = name, nn_Namespace = namespace\<rparr>])) \<and>
     ((Get_HelmRepository k ctx \<lparr>nn_Name = name, nn_Namespace = namespace\<rparr> = Returned hrepo \<and>
       Update_Object k ctx (addReconcileAnnotation tp (HelmRepositoryObj hrepo)) = Returned ()) \<longrightarrow>
        ReconcileResource tp (Some cl) ctx ResourceTypeHelmRepository name namespace =
          (Returned (),
           [GetCall HelmRepository_v1beta2 ctx \<lparr>nn_Name = name, nn_Namespace = namespace\<rparr>,
            UpdateCall ctx (addReconcileAnnotation tp (HelmRepositoryObj hrepo))])) \<and>
     ((Get_HelmRepository k ctx \<lparr>nn_Name = name, nn_Namespace = namespace\<rparr> = Returned hrepo \<and>
       Update_Object k ctx (addReconcileAnnotation tp (HelmRepositoryObj hrepo)) = Failed err) \<longrightarrow>
        ReconcileResource tp (Some cl) ctx ResourceTypeHelmRepository name namespace =
          (Failed (Errorf (''failed to update '' @ ResourceTypeHelmRepository @ ''/'' @ name @ '': '' @ Error err) (Some err)),
           [GetCall HelmRepository_v1beta2 ctx \<lparr>nn_Name = name, nn_Namespace = namespace\<rparr>,
            UpdateCall ctx (addReconcileAnnotation tp (HelmRepositoryObj hrepo))])) \<and>
     (Get_HelmRepository k ctx \<lparr>nn_Name = name, nn_Namespace = namespace\<rparr> = Failed err \<longrightarrow>
        ReconcileResource tp (Some cl) ctx ResourceTypeHelmRepository name namespace =
          (Failed (Errorf (''failed to get '' @ ResourceTypeHelmRepository @ ''/'' @ name @ '': '' @ Error err) (Some err)),
           [GetCall HelmRepository_v1beta2 ctx \<lparr>nn_Name = name, nn_Namespace = namespace\<rparr>])) \<and>
     ((Get_Kustomization k ctx \<lparr>nn_Name = name, nn_Namespace = namespace\<rparr> = Returned ks \<and>
       Update_Object k ctx (addReconcileAnnotation tp (KustomizationObj ks)) = Returned ()) \<longrightarrow>
        ReconcileResource tp (Some cl) ctx ResourceTypeKustomization name namespace =
          (Returned (),
           [GetCall Kustomization_v1 ctx \<lparr>nn_Name = name, nn_Namespace = namespace\<rparr>,
            UpdateCall ctx (addReconcileAnnotation tp (KustomizationObj ks))])) \<and>
     ((Get_Kustomization k ctx \<lparr>nn_Name = name, nn_Namespace = namespace\<rparr> = Returned ks \<and>
       Update_Object k ctx (addReconcileAnnotation tp (KustomizationObj ks)) = Failed err) \<longrightarrow>
        ReconcileResource tp (Some cl) ctx ResourceTypeKustomization name namespace =
          (Failed (Errorf (''failed to update '' @ ResourceTypeKustomization @ ''/'' @ name @ '': '' @ Error err) (Some err)),
           [GetCall Kustomization_v1 ctx \<lparr>nn_Name = name, nn_Namespace = namespace\<rparr>,
            UpdateCall ctx (addReconcileAnnotation tp (KustomizationObj ks))])) \<and>
     (Get_Kustomization k ctx \<lparr>nn_Name = name, nn_Namespace = namespace\<rparr> = Failed err \<longrightarrow>
        ReconcileResource tp (Some cl) ctx ResourceTypeKustomization name namespace =
          (Failed (Errorf (''failed to get '' @ ResourceTypeKustomization @ ''/'' @ name @ '': '' @ Error err) (Some err)),
           [GetCall Kustomization_v1 ctx \<lparr>nn_Name = name, nn_Namespace = namespace\<rparr>])) \<and>
     ((Get_HelmRelease k ctx \<lparr>nn_Name = name, nn_Namespace = namespace\<rparr> = Returned hr \<and>
       Update_Object k ctx (addReconcileAnnotation tp (HelmReleaseObj hr)) = Returned ()) \<longrightarrow>
        ReconcileResource tp (Some cl) ctx ResourceTypeHelmRelease name namespace =
          (Returned (),
           [GetCall HelmRelease_v2beta1 ctx \<lparr>nn_Name = name, nn_Namespace = namespace\<rparr>,
            UpdateCall ctx (addReconcileAnnotation tp (HelmReleaseObj hr))])) \<and>
     ((Get_HelmRelease k ctx \<lparr>nn_Name = name, nn_Namespace = namespace\<rparr> = Returned hr \<and>
       Update_Object k ctx (addReconcileAnnotation tp (HelmReleaseObj hr)) = Failed err) \<longrightarrow>
        ReconcileResource tp (Some cl) ctx ResourceTypeHelmRelease name namespace =
          (Failed (Errorf (''failed to update '' @ ResourceTypeHelmRelease @ ''/'' @ name @ '': '' @ Error err) (Some err)),
           [GetCall HelmRelease_v2beta1 ctx \<lparr>nn_Name = name, nn_Namespace = namespace\<rparr>,
            UpdateCall ctx (addReconcileAnnotation tp (HelmReleaseObj hr))])) \<and>
     (Get_HelmRelease k ctx \<lparr>nn_Name = name, nn_Namespace = namespace\<rparr> = Failed err \<longrightarrow>
        ReconcileResource tp (Some cl) ctx ResourceTypeHelmRelease name namespace =
          (Failed (Errorf (''failed to get '' @ ResourceTypeHelmRelease @ ''/'' @ name @ '': '' @ Error err) (Some err)),
           [GetCall HelmRelease_v2beta1 ctx \<lparr>nn_Name = name, nn_Namespace = namespace\<rparr>])) \<and>
     addReconcileAnnotation tp (GitRepositoryObj repo) =
        GitRepositoryObj (repo\<lparr>gr_Meta := (gr_Meta repo)\<lparr>om_Annotations := Some
                  ((case om_Annotations (gr_Meta repo) of None \<Rightarrow> Map.empty | Some m \<Rightarrow> m)
                    (''reconcile.fluxcd.io/requestedAt'' \<mapsto> time_Format tp (Time_UTC (time_Now tp)) RFC3339))\<rparr>\<rparr>) \<and>
     addReconcileAnnotation tp (HelmRepositoryObj hrepo) =
        HelmRepositoryObj (hrepo\<lparr>hp_Meta := (hp_Meta hrepo)\<lparr>om_Annotations := Some
                  ((case om_Annotations (hp_Meta hrepo) of None \<Rightarrow> Map.empty | Some m \<Rightarrow> m)
                    (''reconcile.fluxcd.io/requestedAt'' \<mapsto> time_Format tp (Time_UTC (time_Now tp)) RFC3339))\<rparr>\<rparr>) \<and>
     addReconcileAnnotation tp (KustomizationObj ks) =
        KustomizationObj (ks\<lparr>ks_Meta := (ks_Meta ks)\<lparr>om_Annotations := Some
                  ((case om_Annotations (ks_Meta ks) of None \<Rightarrow> Map.empty | Some m \<Rightarrow> m)
                    (''reconcile.fluxcd.io/requestedAt'' \<mapsto> time_Format tp (Time_UTC (time_Now tp)) RFC3339))\<rparr>\<rparr>) \<and>
     addReconcileAnnotation tp (HelmReleaseObj hr) =
        HelmReleaseObj (hr\<lparr>hl_Meta := (hl_Meta hr)\<lparr>om_Annotations := Some
                  ((case om_Annotations (hl_Meta hr) of None \<Rightarrow> Map.empty | Some m \<Rightarrow> m)
                    (''reconcile.fluxcd.io/requestedAt'' \<mapsto> time_Format tp (Time_UTC (time_Now tp)) RFC3339))\<rparr>\<rparr>) \<and>
     (\<forall>obj. \<exists>m. GetAnnotations (addReconcileAnnotation tp obj) = Some m \<and>
        m ''reconcile.fluxcd.io/requestedAt'' = Some (time_Format tp (Time_UTC (time_Now tp)) RFC3339) \<and>
        (\<forall>a. a \<noteq> ''reconcile.fluxcd.io/requestedAt'' \<longrightarrow>
           m a = (case GetAnnotations obj of None \<Rightarrow> None | Some m0 \<Rightarrow> m0 a))) \<and>
     location (Time_UTC (time_Now tp)) = UTC \<and>
     unixNano (Time_UTC (time_Now tp)) = unixNano (time_Now tp) \<and>
     RFC3339 = ''2006-01-02T15:04:05Z07:00''"
  using assms
  by (intro conjI allI addReconcileAnnotation_keeps)
     (simp_all add: ReconcileResource_def newObject_def c_Get_def c_Update_def Let_def
        addReconcileAnnotation_def reconcileAnnotation_def Time_UTC_def RFC3339_def
        ResourceTypeGitRepository_def ResourceTypeHelmRepository_def
        ResourceTypeKustomization_def ResourceTypeHelmRelease_def)

theorem ReconcileResource_sets_requestedAt_witness:
  "embeddedClient sampleClient = Some sampleCluster \<and>
   Get_Kustomization sampleCluster (Some Background) \<lparr>nn_Name = ''apps'', nn_Namespace = ''flux-system''\<rparr> = Returned (sampleKustomization [sampleCondition ''Ready'' ''True'' ''ReconciliationSucceeded'']) \<and>
   Update_Object sampleCluster (Some Background) (addReconcileAnnotation sampleTime (KustomizationObj (sampleKustomization [sampleCondition ''Ready'' ''True'' ''ReconciliationSucceeded'']))) = Returned () \<and>
   ReconcileResource sampleTime (Some sampleClient) (Some Background) ResourceTypeKustomization ''apps'' ''flux-system''
     = (Returned (),
        [GetCall Kustomization_v1 (Some Background) \<lparr>nn_Name = ''apps'', nn_Namespace = ''flux-system''\<rparr>,
         UpdateCall (Some Background) (addReconcileAnnotation sampleTime (KustomizationObj (sampleKustomization [sampleCondition ''Ready'' ''True'' ''ReconciliationSucceeded''])))]) \<and>
   time_Format sampleTime (Time_UTC (time_Now sampleTime)) RFC3339 = ''1970-01-01T00:01:30Z'' \<and>
   (\<exists>m. GetAnnotations (addReconcileAnnotation sampleTime (KustomizationObj (sampleKustomization [sampleCondition ''Ready'' ''True'' ''ReconciliationSucceeded'']))) = Some m \<and>
         m ''reconcile.fluxcd.io/requestedAt'' = Some ''1970-01-01T00:01:30Z'') \<and>
   ''owner'' \<noteq> ''reconcile.fluxcd.io/requestedAt'' \<and>
   (\<exists>m. GetAnnotations (addReconcileAnnotation sampleTime (KustomizationObj (sampleKustomization [sampleCondition ''Ready'' ''True'' ''ReconciliationSucceeded'']\<lparr>ks_Meta := (sampleMeta ''apps'')\<lparr>om_Annotations := Some [''owner'' \<mapsto> ''team-a'']\<rparr>\<rparr>))) = Some m \<and>
         m ''reconcile.fluxcd.io/requestedAt'' = Some ''1970-01-01T00:01:30Z'' \<and>
         m ''owner'' = Some ''team-a'') \<and>
   Get_Kustomization (sampleCluster\<lparr>Update_Object := (\<lambda>ctx obj. Failed conflictError)\<rparr>) (Some Background) \<lparr>nn_Name = ''apps'', nn_Namespace = ''flux-system''\<rparr> = Returned (sampleKustomization [sampleCondition ''Ready'' ''True'' ''ReconciliationSucceeded'']) \<and>
   Update_Object (sampleCluster\<lparr>Update_Object := (\<lambda>ctx obj. Failed conflictError)\<rparr>) (Some Background) (addReconcileAnnotation sampleTime (KustomizationObj (sampleKustomization [sampleCondition ''Ready'' ''True'' ''ReconciliationSucceeded'']))) = Failed conflictError \<and>
   ReconcileResource sampleTime (Some (clientOf (sampleCluster\<lparr>Update_Object := (\<lambda>ctx obj. Failed conflictError)\<rparr>))) (Some Background) ResourceTypeKustomization ''apps'' ''flux-system''
     = (Failed (Errorf (''failed to update '' @ ResourceTypeKustomization @ ''/'' @ ''apps'' @ '': ''
                        @ Error conflictError) (Some conflictError)),
        [GetCall Kustomization_v1 (Some Background) \<lparr>nn_Name = ''apps'', nn_Namespace = ''flux-system''\<rparr>,
         UpdateCall (Some Background) (addReconcileAnnotation sampleTime (KustomizationObj (sampleKustomization [sampleCondition ''Ready'' ''True'' ''ReconciliationSucceeded''])))]) \<and>
   Get_HelmRelease (sampleCluster\<lparr>Get_HelmRelease := (\<lambda>ctx key. Failed notFoundError)\<rparr>) (Some Background) \<lparr>nn_Name = ''web'', nn_Namespace = ''flux-system''\<rparr> = Failed notFoundError \<and>
   ReconcileResource sampleTime (Some (clientOf (sampleCluster\<lparr>Get_HelmRelease := (\<lambda>ctx key. Failed notFoundError)\<rparr>))) (Some Background) ResourceTypeHelmRelease ''web'' ''flux-system''
     = (Failed (Errorf (''failed to get '' @ ResourceTypeHelmRelease @ ''/'' @ ''web'' @ '': ''
                        @ Error notFoundError) (Some notFoundError)),
        [GetCall HelmRelease_v2beta1 (Some Background) \<lparr>nn_Name = ''web'', nn_Namespace = ''flux-system''\<rparr>])"
proof -
  have c1: "embeddedClient sampleClient = Some sampleCluster"
    by (simp add: sampleClient_def)
  have c2: "embeddedClient (clientOf (sampleCluster\<lparr>Update_Object := (\<lambda>ctx obj. Failed conflictError)\<rparr>)) = Some (sampleCluster\<lparr>Update_Object := (\<lambda>ctx obj. Failed conflictError)\<rparr>)"
    and c3: "embeddedClient (clientOf (sampleCluster\<lparr>Get_HelmRelease := (\<lambda>ctx key. Failed notFoundError)\<rparr>)) = Some (sampleCluster\<lparr>Get_HelmRelease := (\<lambda>ctx key. Failed notFoundError)\<rparr>)"
    by (simp_all add: clientOf_def)
  have s1: "Get_Kustomization sampleCluster (Some Background) \<lparr>nn_Name = ''apps'', nn_Namespace = ''flux-system''\<rparr> = Returned (sampleKustomization [sampleCondition ''Ready'' ''True'' ''ReconciliationSucceeded''])"
    and s2: "Update_Object sampleCluster (Some Background) (addReconcileAnnotation sampleTime (KustomizationObj (sampleKustomization [sampleCondition ''Ready'' ''True'' ''ReconciliationSucceeded'']))) = Returned ()"
    and s8: "Get_Kustomization (sampleCluster\<lparr>Update_Object := (\<lambda>ctx obj. Failed conflictError)\<rparr>) (Some Background) \<lparr>nn_Name = ''apps'', nn_Namespace = ''flux-system''\<rparr> = Returned (sampleKustomization [sampleCondition ''Ready'' ''True'' ''ReconciliationSucceeded''])"
    and s9: "Update_Object (sampleCluster\<lparr>Update_Object := (\<lambda>ctx obj. Failed conflictError)\<rparr>) (Some Background) (addReconcileAnnotation sampleTime (KustomizationObj (sampleKustomization [sampleCondition ''Ready'' ''True'' ''ReconciliationSucceeded'']))) = Failed conflictError"
    and s11: "Get_HelmRelease (sampleCluster\<lparr>Get_HelmRelease := (\<lambda>ctx key. Failed notFoundError)\<rparr>) (Some Background) \<lparr>nn_Name = ''web'', nn_Namespace = ''flux-system''\<rparr> = Failed notFoundError"
    by (simp_all add: sampleCluster_def)
  have s4: "time_Format sampleTime (Time_UTC (time_Now sampleTime)) RFC3339 = ''1970-01-01T00:01:30Z''"
    by (simp add: sampleTime_def Time_UTC_def)
  have s6: "''owner'' \<noteq> ''reconcile.fluxcd.io/requestedAt''"
    by simp
  note t1 = ReconcileResource_sets_requestedAt [OF c1, where ctx = "Some Background"
      and tp = sampleTime and name = "''apps''" and namespace = "''flux-system''"
      and ks = "sampleKustomization [sampleCondition ''Ready'' ''True'' ''ReconciliationSucceeded'']"]
  note t2 = ReconcileResource_sets_requestedAt [OF c2, where ctx = "Some Background"
      and tp = sampleTime and name = "''apps''" and namespace = "''flux-system''"
      and ks = "sampleKustomization [sampleCondition ''Ready'' ''True'' ''ReconciliationSucceeded'']" and err = conflictError]
  note t3 = ReconcileResource_sets_requestedAt [OF c3, where ctx = "Some Background"
      and tp = sampleTime and name = "''web''" and namespace = "''flux-system''"
      and err = notFoundError]
  have s3: "ReconcileResource sampleTime (Some sampleClient) (Some Background) ResourceTypeKustomization ''apps'' ''flux-system''
     = (Returned (),
        [GetCall Kustomization_v1 (Some Background) \<lparr>nn_Name = ''apps'', nn_Namespace = ''flux-system''\<rparr>,
         UpdateCall (Some Background) (addReconcileAnnotation sampleTime (KustomizationObj (sampleKustomization [sampleCondition ''Ready'' ''True'' ''ReconciliationSucceeded''])))])"
    using t1 [THEN conjunct2, THEN conjunct2, THEN conjunct2, THEN conjunct2, THEN conjunct2, THEN conjunct2, THEN conjunct1] s1 s2 by simp
  note keeps = t1 [THEN conjunct2, THEN conjunct2, THEN conjunct2, THEN conjunct2, THEN conjunct2, THEN conjunct2, THEN conjunct2, THEN conjunct2, THEN conjunct2, THEN conjunct2, THEN conjunct2, THEN conjunct2, THEN conjunct2, THEN conjunct2, THEN conjunct2, THEN conjunct2, THEN conjunct1]
  have s5: "(\<exists>m. GetAnnotations (addReconcileAnnotation sampleTime (KustomizationObj (sampleKustomization [sampleCondition ''Ready'' ''True'' ''ReconciliationSucceeded'']))) = Some m \<and>
         m ''reconcile.fluxcd.io/requestedAt'' = Some ''1970-01-01T00:01:30Z'')"
    using keeps [rule_format, of "KustomizationObj (sampleKustomization [sampleCondition ''Ready'' ''True'' ''ReconciliationSucceeded''])"] s4 by auto
  have s7: "(\<exists>m. GetAnnotations (addReconcileAnnotation sampleTime (KustomizationObj (sampleKustomization [sampleCondition ''Ready'' ''True'' ''ReconciliationSucceeded'']\<lparr>ks_Meta := (sampleMeta ''apps'')\<lparr>om_Annotations := Some [''owner'' \<mapsto> ''team-a'']\<rparr>\<rparr>))) = Some m \<and>
         m ''reconcile.fluxcd.io/requestedAt'' = Some ''1970-01-01T00:01:30Z'' \<and>
         m ''owner'' = Some ''team-a'')"
    using keeps [rule_format, of "KustomizationObj (sampleKustomization [sampleCondition ''Ready'' ''True'' ''ReconciliationSucceeded'']\<lparr>ks_Meta := (sampleMeta ''apps'')\<lparr>om_Annotations := Some [''owner'' \<mapsto> ''team-a'']\<rparr>\<rparr>)"] s4 s6
    by (auto simp: sampleKustomization_def)
  have s10: "ReconcileResource sampleTime (Some (clientOf (sampleCluster\<lparr>Update_Object := (\<lambda>ctx obj. Failed conflictError)\<rparr>))) (Some Background) ResourceTypeKustomization ''apps'' ''flux-system''
     = (Failed (Errorf (''failed to update '' @ ResourceTypeKustomization @ ''/'' @ ''apps'' @ '': ''
                        @ Error conflictError) (Some conflictError)),
        [GetCall Kustomization_v1 (Some Background) \<lparr>nn_Name = ''apps'', nn_Namespace = ''flux-system''\<rparr>,
         UpdateCall (Some Background) (addReconcileAnnotation sampleTime (KustomizationObj (sampleKustomization [sampleCondition ''Ready'' ''True'' ''ReconciliationSucceeded''])))])"
    using t2 [THEN conjunct2, THEN conjunct2, THEN conjunct2, THEN conjunct2, THEN conjunct2, THEN conjunct2, THEN conjunct2, THEN conjunct1] s8 s9 by simp
  have s12: "ReconcileResource sampleTime (Some (clientOf (sampleCluster\<lparr>Get_HelmRelease := (\<lambda>ctx key. Failed notFoundError)\<rparr>))) (Some Background) ResourceTypeHelmRelease ''web'' ''flux-system''
     = (Failed (Errorf (''failed to get '' @ ResourceTypeHelmRelease @ ''/'' @ ''web'' @ '': ''
                        @ Error notFoundError) (Some notFoundError)),
        [GetCall HelmRelease_v2beta1 (Some Background) \<lparr>nn_Name = ''web'', nn_Namespace = ''flux-system''\<rparr>])"
    using t3 [THEN conjunct2, THEN conjunct2, THEN conjunct2, THEN conjunct2, THEN conjunct2, THEN conjunct2, THEN conjunct2, THEN conjunct2, THEN conjunct2, THEN conjunct2, THEN conjunct2, THEN conjunct1] s11 by simp
  show ?thesis
    using c1 s1 s2 s3 s4 s5 s6 s7 s8 s9 s10 s11 s12 by (intro conjI)
qed

end
